theory Spec2Isabelle
  imports Main "HOL-Library.AList"
begin

section \<open>JavaScript values\<close>

text \<open>
  The values that flow through \<^verbatim>\<open>lib/index.js\<close>. An object is the list of its own
  properties in insertion order; a property is read through the first binding of its
  name. The list holds own properties only (there is no prototype), and a new property
  goes to the end of the list whatever its name: the engine's listing of integer-like
  names ahead of the others is not represented. Numbers are only ever carried (as tag
  values) or rejected by an assertion, so integers stand for them.
\<close>

datatype jsval =
    JUndefined
  | JNull
  | JBool bool
  | JNum int
  | JStr string
  | JObj "(string \<times> jsval) list"

datatype error = AssertionError string | TypeError

text \<open>Truthiness, as tested by \<^verbatim>\<open>if (x)\<close>, \<^verbatim>\<open>!x\<close> and \<^verbatim>\<open>x || y\<close>.\<close>

fun truthy :: "jsval \<Rightarrow> bool" where
  "truthy JUndefined = False"
| "truthy JNull = False"
| "truthy (JBool b) = b"
| "truthy (JNum n) = (n \<noteq> 0)"
| "truthy (JStr s) = (s \<noteq> [])"
| "truthy (JObj ps) = True"

text \<open>Property read \<^verbatim>\<open>obj.k\<close>: a name that is absent reads as \<^verbatim>\<open>undefined\<close>. Every read
  in the modelled code follows an \<^verbatim>\<open>assert.object\<close> of the value read from.\<close>

fun get :: "jsval \<Rightarrow> string \<Rightarrow> jsval" where
  "get (JObj ps) k = (case map_of ps k of None \<Rightarrow> JUndefined | Some v \<Rightarrow> v)"
| "get _ k = JUndefined"

text \<open>Property write \<^verbatim>\<open>obj[k] = v\<close> (the file is not in strict mode): on an object it
  replaces the binding or appends a new one, on \<^verbatim>\<open>undefined\<close> and \<^verbatim>\<open>null\<close> it throws,
  on any other primitive it does nothing.\<close>

fun set_prop :: "jsval \<Rightarrow> string \<Rightarrow> jsval \<Rightarrow> error + jsval" where
  "set_prop (JObj ps) k v = Inr (JObj (AList.update k v ps))"
| "set_prop JUndefined k v = Inl TypeError"
| "set_prop JNull k v = Inl TypeError"
| "set_prop x k v = Inr x"

fun Object_keys :: "jsval \<Rightarrow> string list" where
  "Object_keys (JObj ps) = remdups (map fst ps)"
| "Object_keys _ = []"

section \<open>The checks of assert-plus\<close>

text \<open>
  \<^verbatim>\<open>assert-plus\<close> is a dependency of the repository. Its checks are:
  \<^verbatim>\<open>string\<close>: \<^verbatim>\<open>typeof (arg) === 'string'\<close>;
  \<^verbatim>\<open>bool\<close>: \<^verbatim>\<open>typeof (arg) === 'boolean'\<close>;
  \<^verbatim>\<open>object\<close>: \<^verbatim>\<open>typeof (arg) === 'object' && arg !== null\<close>;
  \<^verbatim>\<open>uuid\<close>: \<^verbatim>\<open>typeof (arg) === 'string' && UUID_REGEXP.test(arg)\<close> with
  \<^verbatim>\<open>/^[a-fA-F0-9]{8}-[a-fA-F0-9]{4}-[a-fA-F0-9]{4}-[a-fA-F0-9]{4}-[a-fA-F0-9]{12}$/\<close>;
  the \<^verbatim>\<open>optionalX\<close> variant returns at once when \<^verbatim>\<open>arg === undefined || arg === null\<close>.
  A failed check throws an AssertionError, recorded here with the name the call passes.
  \<^verbatim>\<open>assert.equal\<close> is Node's own. The checks are modelled as they run by default,
  that is, with \<^verbatim>\<open>NODE_NDEBUG\<close> unset.
\<close>

definition is_hex :: "char \<Rightarrow> bool" where
  "is_hex c = (c \<in> set ''0123456789abcdefABCDEF'')"

fun hexes :: "nat \<Rightarrow> string \<Rightarrow> string option" where
  "hexes 0 s = Some s"
| "hexes (Suc n) [] = None"
| "hexes (Suc n) (c # cs) = (if is_hex c then hexes n cs else None)"

fun dash :: "string \<Rightarrow> string option" where
  "dash [] = None"
| "dash (c # cs) = (if c = CHR ''-'' then Some cs else None)"

definition UUID_REGEXP_test :: "string \<Rightarrow> bool" where
  "UUID_REGEXP_test s =
     (Option.bind (Option.bind (Option.bind (Option.bind (Option.bind (Option.bind
        (Option.bind (Option.bind (hexes 8 s) dash) (hexes 4)) dash) (hexes 4)) dash)
        (hexes 4)) dash) (hexes 12) = Some [])"

fun check_string :: "jsval \<Rightarrow> bool" where
  "check_string (JStr s) = True"
| "check_string _ = False"

fun check_bool :: "jsval \<Rightarrow> bool" where
  "check_bool (JBool b) = True"
| "check_bool _ = False"

fun check_object :: "jsval \<Rightarrow> bool" where
  "check_object (JObj ps) = True"
| "check_object _ = False"

fun check_uuid :: "jsval \<Rightarrow> bool" where
  "check_uuid (JStr s) = UUID_REGEXP_test s"
| "check_uuid _ = False"

definition optional :: "(jsval \<Rightarrow> bool) \<Rightarrow> jsval \<Rightarrow> bool" where
  "optional check arg = (arg = JUndefined \<or> arg = JNull \<or> check arg)"

section \<open>The world outside a Span\<close>

text \<open>
  Two collaborators are reached by side effect. \<^verbatim>\<open>uuid.v4()\<close> (node-uuid) is an
  external generator: \<open>uuid_rng\<close> is the sequence of strings it will return and
  \<open>uuid_calls\<close> the number of calls made so far. \<^verbatim>\<open>logger.info(record)\<close> hands one
  record to the event sink and does not fail: \<open>logged\<close> lists, in order, each logger
  with the record it received.
\<close>

record world =
  uuid_rng :: "nat \<Rightarrow> string"
  uuid_calls :: nat
  logged :: "(jsval \<times> jsval) list"

definition uuid_v4 :: "world \<Rightarrow> jsval \<times> world" where
  "uuid_v4 w = (JStr (uuid_rng w (uuid_calls w)), w\<lparr>uuid_calls := Suc (uuid_calls w)\<rparr>)"

definition logger_info :: "jsval \<Rightarrow> jsval \<Rightarrow> world \<Rightarrow> world" where
  "logger_info lg rec w = w\<lparr>logged := logged w @ [(lg, rec)]\<rparr>"

section \<open>Span\<close>

record span =
  creator :: bool
  finished :: bool
  logger :: jsval
  operation :: jsval
  parent_span_id :: jsval
  span_id :: jsval
  tags :: "(string \<times> jsval) list"
  trace_id :: jsval

text \<open>
  The constructor \<^verbatim>\<open>function Span(opts)\<close> runs in three blocks: the assertions on
  \<^verbatim>\<open>opts\<close>, the assignments to \<^verbatim>\<open>self\<close>, and the assertions on \<^verbatim>\<open>self\<close> under the
  comment "Ensure this span has everything it needs". The two guards on the parent id
  both test \<^verbatim>\<open>opts.parent_span_id !== '0'\<close>; the second one then asserts on
  \<^verbatim>\<open>self.parent_span_id\<close>. \<^verbatim>\<open>a || uuid.v4()\<close> calls the generator only when \<^verbatim>\<open>a\<close> is
  falsy, first for the span id, then for the trace id.
\<close>

definition Span_check_opts :: "jsval \<Rightarrow> error option" where
  "Span_check_opts opts =
    (if \<not> check_object opts then Some (AssertionError ''opts'')
     else if \<not> check_object (get opts ''logger'') then Some (AssertionError ''opts.logger'')
     else if \<not> check_string (get opts ''operation'')
       then Some (AssertionError ''opts.operation'')
     else if get opts ''parent_span_id'' \<noteq> JStr ''0'' \<and>
             \<not> optional check_uuid (get opts ''parent_span_id'')
       then Some (AssertionError ''opts.parent_span_id'')
     else if \<not> optional check_uuid (get opts ''span_id'')
       then Some (AssertionError ''opts.span_id'')
     else if \<not> optional check_uuid (get opts ''trace_id'')
       then Some (AssertionError ''opts.trace_id'')
     else None)"

definition Span_init :: "jsval \<Rightarrow> world \<Rightarrow> span \<times> world" where
  "Span_init opts w =
    (let (sid, w1) = (if truthy (get opts ''span_id'') then (get opts ''span_id'', w)
                      else uuid_v4 w);
         (tid, w2) = (if truthy (get opts ''trace_id'') then (get opts ''trace_id'', w1)
                      else uuid_v4 w1)
     in (\<lparr> creator = \<not> truthy (get opts ''span_id''),
            finished = False,
            logger = get opts ''logger'',
            operation = get opts ''operation'',
            parent_span_id = (if truthy (get opts ''parent_span_id'')
                              then get opts ''parent_span_id'' else JStr ''0''),
            span_id = sid,
            tags = [],
            trace_id = tid \<rparr>, w2))"

definition Span_check_self :: "jsval \<Rightarrow> span \<Rightarrow> error option" where
  "Span_check_self opts self =
    (if \<not> check_object (logger self) then Some (AssertionError ''self.logger'')
     else if \<not> check_string (operation self) then Some (AssertionError ''self.operation'')
     else if get opts ''parent_span_id'' \<noteq> JStr ''0'' \<and> \<not> check_uuid (parent_span_id self)
       then Some (AssertionError ''self.parent_span_id'')
     else if \<not> check_uuid (span_id self) then Some (AssertionError ''self.span_id'')
     else if \<not> check_uuid (trace_id self) then Some (AssertionError ''self.trace_id'')
     else None)"

definition Span :: "jsval \<Rightarrow> world \<Rightarrow> (error + span) \<times> world" where
  "Span opts w =
    (case Span_check_opts opts of
       Some e \<Rightarrow> (Inl e, w)
     | None \<Rightarrow>
        (case Span_init opts w of
           (self, w') \<Rightarrow>
             (case Span_check_self opts self of
                Some e \<Rightarrow> (Inl e, w')
              | None \<Rightarrow> (Inr self, w'))))"

text \<open>
  \<^verbatim>\<open>startChild\<close> assigns to no field of \<^verbatim>\<open>self\<close>; the receiver is returned as the call
  leaves it, next to the child.
\<close>

definition startChild :: "span \<Rightarrow> jsval \<Rightarrow> world \<Rightarrow> (error + span \<times> span) \<times> world" where
  "startChild self opts w =
    (if \<not> check_object opts then (Inl (AssertionError ''opts''), w)
     else if \<not> check_string (get opts ''operation'')
       then (Inl (AssertionError ''opts.operation''), w)
     else (case Span (JObj [(''logger'', logger self),
                           (''operation'', get opts ''operation''),
                           (''parent_span_id'', span_id self),
                           (''trace_id'', trace_id self)]) w of
             (Inl e, w') \<Rightarrow> (Inl e, w')
           | (Inr child, w') \<Rightarrow> (Inr (self, child), w')))"

text \<open>\<^verbatim>\<open>injectHeaders\<close> writes three properties of the header object it is given and
  returns nothing; the header object after the call is the result here.\<close>

definition injectHeaders :: "span \<Rightarrow> jsval \<Rightarrow> error + jsval" where
  "injectHeaders self headersObj =
    (case set_prop headersObj ''x-span-id'' (span_id self) of
       Inl e \<Rightarrow> Inl e
     | Inr h1 \<Rightarrow>
        (case set_prop h1 ''x-parent-span-id'' (parent_span_id self) of
           Inl e \<Rightarrow> Inl e
         | Inr h2 \<Rightarrow> set_prop h2 ''x-request-id'' (trace_id self)))"

text \<open>
  The loop of \<^verbatim>\<open>addTags\<close> over \<^verbatim>\<open>Object.keys(tags)\<close>. The assignment
  \<^verbatim>\<open>self.tags[k] = tags[k]\<close> stores an own property of \<^verbatim>\<open>self.tags\<close>, except for the
  name \<^verbatim>\<open>__proto__\<close>: there it reaches the setter inherited from \<^verbatim>\<open>Object.prototype\<close>
  and stores no own property.
\<close>

fun addTags_loop :: "string list \<Rightarrow> jsval \<Rightarrow> span \<Rightarrow> span" where
  "addTags_loop [] tags' self = self"
| "addTags_loop (k # ks) tags' self =
     addTags_loop ks tags'
       (if k = ''__proto__'' then self
        else self\<lparr>tags := AList.update k (get tags' k) (tags self)\<rparr>)"

definition addTags :: "span \<Rightarrow> jsval \<Rightarrow> error + span" where
  "addTags self tags' =
    (if finished self \<noteq> False then Inl (AssertionError ''self.finished'')
     else if \<not> check_object tags' then Inl (AssertionError ''tags'')
     else Inr (addTags_loop (Object_keys tags') tags' self))"

text \<open>
  \<^verbatim>\<open>Span.prototype.log = function spanLog(name, end)\<close>. The event is built property by
  property; the record handed to the logger is \<^verbatim>\<open>{evt: evt}\<close>.
\<close>

definition spanLog :: "span \<Rightarrow> jsval \<Rightarrow> jsval \<Rightarrow> world \<Rightarrow> (error + span) \<times> world" where
  "spanLog self name end' w =
    (if finished self \<noteq> False then (Inl (AssertionError ''self.finished''), w)
     else if \<not> check_string name then (Inl (AssertionError ''name''), w)
     else if \<not> optional check_bool end' then (Inl (AssertionError ''end''), w)
     else
       let evt0 = AList.update ''trace_id'' (trace_id self)
                   (AList.update ''span_id'' (span_id self)
                     (AList.update ''parent_span_id'' (parent_span_id self)
                       (AList.update ''operation'' (operation self)
                         (AList.update ''kind'' name []))));
           evt1 = (if truthy end' \<and> creator self
                   then AList.update ''end'' (JBool True) evt0 else evt0);
           self1 = (if truthy end' then self\<lparr>finished := True\<rparr> else self);
           evt2 = AList.update ''tags'' (JObj (tags self1)) evt1;
           self2 = self1\<lparr>tags := []\<rparr>
       in (Inr self2, logger_info (logger self2) (JObj [(''evt'', JObj evt2)]) w))"

section \<open>Tracer\<close>

definition newSpan :: "jsval \<Rightarrow> world \<Rightarrow> (error + span) \<times> world" where
  "newSpan opts w = Span opts w"

definition joinSpan :: "jsval \<Rightarrow> world \<Rightarrow> (error + span) \<times> world" where
  "joinSpan opts w =
    (if \<not> check_object opts then (Inl (AssertionError ''opts''), w)
     else if get opts ''parent_span_id'' \<noteq> JStr ''0'' \<and>
             \<not> check_uuid (get opts ''parent_span_id'')
       then (Inl (AssertionError ''opts.parent_span_id''), w)
     else if \<not> check_uuid (get opts ''trace_id'')
       then (Inl (AssertionError ''opts.trace_id''), w)
     else Span opts w)"

text \<open>
  \<^verbatim>\<open>clientRequest(span, opts, tags)\<close>: the current span is \<open>None\<close> for \<^verbatim>\<open>null\<close> or
  \<^verbatim>\<open>undefined\<close>. The header object \<^verbatim>\<open>opts.headers\<close> is the caller's and is written in
  place; it is returned next to the new span.
\<close>

definition clientRequest ::
  "span option \<Rightarrow> jsval \<Rightarrow> jsval \<Rightarrow> world \<Rightarrow> (error + span \<times> jsval) \<times> world" where
  "clientRequest span opts tags' w =
    (if \<not> check_object opts then (Inl (AssertionError ''opts''), w)
     else if \<not> check_object (get opts ''headers'')
       then (Inl (AssertionError ''opts.headers''), w)
     else if \<not> check_string (get opts ''operation'')
       then (Inl (AssertionError ''opts.operation''), w)
     else if \<not> check_object tags' then (Inl (AssertionError ''tags''), w)
     else
       (case (case span of
                Some cur \<Rightarrow>
                  (case startChild cur (JObj [(''operation'', get opts ''operation'')]) w of
                     (Inl e, w') \<Rightarrow> (Inl e, w')
                   | (Inr (cur', child), w') \<Rightarrow> (Inr child, w'))
              | None \<Rightarrow>
                  newSpan (JObj [(''logger'', get opts ''logger''),
                                 (''operation'', get opts ''operation'')]) w) of
          (Inl e, w') \<Rightarrow> (Inl e, w')
        | (Inr span0, w') \<Rightarrow>
           (case injectHeaders span0 (get opts ''headers'') of
              Inl e \<Rightarrow> (Inl e, w')
            | Inr headers' \<Rightarrow>
               (case addTags span0 tags' of
                  Inl e \<Rightarrow> (Inl e, w')
                | Inr span1 \<Rightarrow>
                   (case spanLog span1 (JStr ''client.request'') JUndefined w' of
                      (Inl e, w'') \<Rightarrow> (Inl e, w'')
                    | (Inr span2, w'') \<Rightarrow> (Inr (span2, headers'), w''))))))"

definition clientResponse :: "span \<Rightarrow> jsval \<Rightarrow> jsval \<Rightarrow> world \<Rightarrow> (error + span) \<times> world" where
  "clientResponse span opts tags' w =
    (if \<not> check_object opts then (Inl (AssertionError ''opts''), w)
     else if \<not> optional check_bool (get opts ''continue'')
       then (Inl (AssertionError ''opts.continue''), w)
     else if \<not> check_object tags' then (Inl (AssertionError ''tags''), w)
     else
       (case addTags span tags' of
          Inl e \<Rightarrow> (Inl e, w)
        | Inr span1 \<Rightarrow>
            spanLog span1 (JStr ''client.response'')
              (JBool (\<not> truthy (get opts ''continue''))) w))"

text \<open>
  The inbound request is restify's: \<^verbatim>\<open>req.header(name)\<close> looks a header up by name
  (\<^verbatim>\<open>undefined\<close> when absent) and \<^verbatim>\<open>req.getId()\<close> returns the request's own id. The
  request object is represented by its header object and its id.
\<close>

definition req_header :: "jsval \<Rightarrow> string \<Rightarrow> jsval" where
  "req_header req name = get (get req ''headers'') name"

definition req_getId :: "jsval \<Rightarrow> jsval" where
  "req_getId req = get req ''id''"

definition serverRequest :: "jsval \<Rightarrow> jsval \<Rightarrow> world \<Rightarrow> (error + span) \<times> world" where
  "serverRequest opts tags' w =
    (if \<not> check_object opts then (Inl (AssertionError ''opts''), w)
     else if \<not> check_object (get opts ''logger'') then (Inl (AssertionError ''opts.logger''), w)
     else if \<not> check_string (get opts ''operation'')
       then (Inl (AssertionError ''opts.operation''), w)
     else if \<not> check_object (get opts ''req'') then (Inl (AssertionError ''opts.req''), w)
     else
       (case joinSpan
              (JObj [(''logger'', get opts ''logger''),
                     (''operation'', get opts ''operation''),
                     (''parent_span_id'',
                        (if truthy (req_header (get opts ''req'') ''x-parent-span-id'')
                         then req_header (get opts ''req'') ''x-parent-span-id''
                         else JStr ''0'')),
                     (''span_id'', req_header (get opts ''req'') ''x-span-id''),
                     (''trace_id'', req_getId (get opts ''req''))]) w of
          (Inl e, w') \<Rightarrow> (Inl e, w')
        | (Inr span0, w') \<Rightarrow>
           (case addTags span0 tags' of
              Inl e \<Rightarrow> (Inl e, w')
            | Inr span1 \<Rightarrow> spanLog span1 (JStr ''server.request'') JUndefined w')))"

definition serverResponse :: "span \<Rightarrow> jsval \<Rightarrow> jsval \<Rightarrow> world \<Rightarrow> (error + span) \<times> world" where
  "serverResponse span opts tags' w =
    (if \<not> check_object opts then (Inl (AssertionError ''opts''), w)
     else if \<not> optional check_bool (get opts ''continue'')
       then (Inl (AssertionError ''opts.continue''), w)
     else if \<not> check_object tags' then (Inl (AssertionError ''tags''), w)
     else
       (case addTags span tags' of
          Inl e \<Rightarrow> (Inl e, w)
        | Inr span1 \<Rightarrow>
            spanLog span1 (JStr ''server.response'')
              (JBool (\<not> truthy (get opts ''continue''))) w))"

section \<open>Well-formed spans, their evolution, and the event record\<close>

text \<open>
  \<open>span_inv\<close> is what the closing assertions of the constructor establish. \<open>evolves\<close>
  relates a Span to each state its methods can take it to: the successful calls of
  \<^verbatim>\<open>addTags\<close>, \<^verbatim>\<open>log\<close> and \<^verbatim>\<open>startChild\<close>, in any number and order.
  \<open>log_event\<close> is the event that \<^verbatim>\<open>log\<close> builds (lemma \<open>spanLog_ok\<close>).
\<close>

definition span_inv :: "span \<Rightarrow> bool" where
  "span_inv s =
    (check_object (logger s) \<and> check_string (operation s) \<and>
     (parent_span_id s = JStr ''0'' \<or> check_uuid (parent_span_id s)) \<and>
     check_uuid (span_id s) \<and> check_uuid (trace_id s))"

inductive evolves :: "span \<Rightarrow> span \<Rightarrow> bool" where
  evolves_refl: "evolves s s"
| evolves_addTags: "evolves s s1 \<Longrightarrow> addTags s1 tags' = Inr s2 \<Longrightarrow> evolves s s2"
| evolves_log: "evolves s s1 \<Longrightarrow> spanLog s1 name end' w = (Inr s2, w') \<Longrightarrow> evolves s s2"
| evolves_startChild:
    "evolves s s1 \<Longrightarrow> startChild s1 opts w = (Inr (s2, child), w') \<Longrightarrow> evolves s s2"

definition log_event :: "span \<Rightarrow> jsval \<Rightarrow> jsval \<Rightarrow> jsval" where
  "log_event s name end' =
     JObj ([(''kind'', name), (''operation'', operation s),
            (''parent_span_id'', parent_span_id s), (''span_id'', span_id s),
            (''trace_id'', trace_id s)] @
           (if truthy end' \<and> creator s then [(''end'', JBool True)] else []) @
           [(''tags'', JObj (tags s))])"

section \<open>Example data\<close>

text \<open>
  A server joins the span of an inbound request (\<open>ex_joined\<close>), tags it, starts a
  child for an outbound call (\<open>ex_child\<close>) and closes it (\<open>ex_closed\<close>). The
  generator returns \<open>ex_fresh\<close> first. In \<open>ex_echo_world\<close> the generator returns the
  span id of the joined span, and the child started there is \<open>ex_twin\<close>.
\<close>

definition ex_trace :: string where
  "ex_trace = ''aaaaaaaa-0000-4000-8000-000000000001''"

definition ex_span :: string where
  "ex_span = ''bbbbbbbb-0000-4000-8000-000000000002''"

definition ex_parent :: string where
  "ex_parent = ''cccccccc-0000-4000-8000-000000000003''"

definition ex_fresh :: string where
  "ex_fresh = ''dddddddd-0000-4000-8000-000000000004''"

definition ex_rng :: "nat \<Rightarrow> string" where
  "ex_rng n = (if n = 0 then ex_fresh else ''eeeeeeee-0000-4000-8000-000000000005'')"

definition ex_logger :: jsval where
  "ex_logger = JObj [(''name'', JStr ''svc'')]"

definition ex_world :: world where
  "ex_world = \<lparr> uuid_rng = ex_rng, uuid_calls = 0, logged = [] \<rparr>"

definition ex_join_opts :: jsval where
  "ex_join_opts =
     JObj [(''logger'', ex_logger), (''operation'', JStr ''svc.get''),
           (''parent_span_id'', JStr ex_parent), (''span_id'', JStr ex_span),
           (''trace_id'', JStr ex_trace)]"

definition ex_joined :: span where
  "ex_joined =
     \<lparr> creator = False, finished = False, logger = ex_logger,
       operation = JStr ''svc.get'', parent_span_id = JStr ex_parent,
       span_id = JStr ex_span, tags = [], trace_id = JStr ex_trace \<rparr>"

definition ex_tagged :: span where
  "ex_tagged = ex_joined\<lparr>tags := [(''peer.addr'', JStr ''10.0.0.1'')]\<rparr>"

definition ex_closed :: span where
  "ex_closed = ex_joined\<lparr>finished := True\<rparr>"

definition ex_child :: span where
  "ex_child =
     \<lparr> creator = True, finished = False, logger = ex_logger,
       operation = JStr ''db.query'', parent_span_id = JStr ex_span,
       span_id = JStr ex_fresh, tags = [], trace_id = JStr ex_trace \<rparr>"

definition ex_echo_world :: world where
  "ex_echo_world = \<lparr> uuid_rng = (\<lambda>n. ex_span), uuid_calls = 0, logged = [] \<rparr>"

definition ex_twin :: span where
  "ex_twin =
     \<lparr> creator = True, finished = False, logger = ex_logger,
       operation = JStr ''db.query'', parent_span_id = JStr ex_span,
       span_id = JStr ex_span, tags = [], trace_id = JStr ex_trace \<rparr>"

definition ex_selfparent_opts :: jsval where
  "ex_selfparent_opts =
     JObj [(''logger'', ex_logger), (''operation'', JStr ''svc.get''),
           (''parent_span_id'', JStr ex_span), (''span_id'', JStr ex_span),
           (''trace_id'', JStr ex_trace)]"

definition ex_selfparent :: span where
  "ex_selfparent =
     \<lparr> creator = False, finished = False, logger = ex_logger,
       operation = JStr ''svc.get'', parent_span_id = JStr ex_span,
       span_id = JStr ex_span, tags = [], trace_id = JStr ex_trace \<rparr>"

definition ex_noparent_opts :: jsval where
  "ex_noparent_opts =
     JObj [(''logger'', ex_logger), (''operation'', JStr ''svc.get''),
           (''trace_id'', JStr ex_trace)]"

definition ex_new_opts :: jsval where
  "ex_new_opts = JObj [(''logger'', ex_logger), (''operation'', JStr ''svc.get'')]"

definition ex_client_opts :: jsval where
  "ex_client_opts =
     JObj [(''headers'', JObj []), (''operation'', JStr ''svc.get''),
           (''logger'', ex_logger)]"

section \<open>Facts about the checks\<close>

lemma hexes_length: "hexes n s = Some r \<Longrightarrow> length s = n + length r"
  by (induction n s rule: hexes.induct) (auto split: if_splits)

lemma UUID_REGEXP_test_long: "UUID_REGEXP_test s \<Longrightarrow> 8 \<le> length s"
proof -
  assume "UUID_REGEXP_test s"
  then obtain r where "hexes 8 s = Some r"
    by (cases "hexes 8 s") (auto simp: UUID_REGEXP_test_def)
  then show ?thesis by (auto dest: hexes_length)
qed

lemma check_uuid_truthy: "check_uuid v \<Longrightarrow> truthy v"
  by (cases v) (auto dest: UUID_REGEXP_test_long)

lemma check_uuid_not_sentinel: "check_uuid v \<Longrightarrow> v \<noteq> JStr ''0''"
  by (cases v) (auto dest: UUID_REGEXP_test_long)

lemma sentinel_not_uuid: "\<not> check_uuid (JStr ''0'')"
  using check_uuid_not_sentinel by blast

lemma UUID_REGEXP_test_sentinel: "UUID_REGEXP_test ''0'' = False"
  using sentinel_not_uuid by simp

lemma optional_uuid_truthy: "optional check_uuid v \<Longrightarrow> truthy v = check_uuid v"
  by (cases v) (auto simp: optional_def dest: UUID_REGEXP_test_long)

section \<open>The constructor, newSpan and joinSpan\<close>

lemma Span_check_opts_None:
  "(Span_check_opts opts = None) =
   (check_object opts \<and> check_object (get opts ''logger'') \<and>
    check_string (get opts ''operation'') \<and>
    (get opts ''parent_span_id'' = JStr ''0'' \<or> optional check_uuid (get opts ''parent_span_id'')) \<and>
    optional check_uuid (get opts ''span_id'') \<and>
    optional check_uuid (get opts ''trace_id''))"
  by (simp add: Span_check_opts_def)

lemma Span_check_self_None:
  "(Span_check_self opts self = None) =
   (check_object (logger self) \<and> check_string (operation self) \<and>
    (get opts ''parent_span_id'' = JStr ''0'' \<or> check_uuid (parent_span_id self)) \<and>
    check_uuid (span_id self) \<and> check_uuid (trace_id self))"
  by (simp add: Span_check_self_def)

lemma Span_Inr_iff:
  "(Span opts w = (Inr s, w')) =
   (Span_check_opts opts = None \<and> Span_init opts w = (s, w') \<and> Span_check_self opts s = None)"
  by (auto simp: Span_def split: option.splits prod.splits)

lemma Span_Inl_iff:
  "(\<exists>e. fst (Span opts w) = Inl e) =
   (Span_check_opts opts \<noteq> None \<or> Span_check_self opts (fst (Span_init opts w)) \<noteq> None)"
  by (auto simp: Span_def split: option.splits prod.splits)

lemma Span_init_eq:
  "Span_init opts w =
    (\<lparr> creator = \<not> truthy (get opts ''span_id''),
       finished = False,
       logger = get opts ''logger'',
       operation = get opts ''operation'',
       parent_span_id = (if truthy (get opts ''parent_span_id'')
                         then get opts ''parent_span_id'' else JStr ''0''),
       span_id = (if truthy (get opts ''span_id'') then get opts ''span_id''
                  else fst (uuid_v4 w)),
       tags = [],
       trace_id = (if truthy (get opts ''trace_id'') then get opts ''trace_id''
                   else fst (uuid_v4 (if truthy (get opts ''span_id'') then w
                                      else snd (uuid_v4 w)))) \<rparr>,
     (if truthy (get opts ''trace_id'')
      then (if truthy (get opts ''span_id'') then w else snd (uuid_v4 w))
      else snd (uuid_v4 (if truthy (get opts ''span_id'') then w else snd (uuid_v4 w)))))"
  by (simp add: Span_init_def Let_def split: prod.splits)

lemma Span_InrD:
  assumes "Span opts w = (Inr s, w')"
  shows "check_object opts" and "check_object (get opts ''logger'')"
    and "check_string (get opts ''operation'')"
    and "get opts ''parent_span_id'' = JStr ''0'' \<or> check_uuid (get opts ''parent_span_id'')"
    and "check_uuid (get opts ''span_id'') \<or>
         (get opts ''span_id'' = JUndefined \<or> get opts ''span_id'' = JNull) \<and>
         check_uuid (fst (uuid_v4 w))"
    and "creator s = (\<not> check_uuid (get opts ''span_id''))"
    and "finished s = False" and "tags s = []"
    and "logger s = get opts ''logger''" and "operation s = get opts ''operation''"
    and "parent_span_id s = get opts ''parent_span_id''"
    and "span_id s = (if check_uuid (get opts ''span_id'') then get opts ''span_id''
                      else fst (uuid_v4 w))"
    and "check_uuid (span_id s)" and "check_uuid (trace_id s)"
proof -
  from assms have pre: "Span_check_opts opts = None"
    and ini: "Span_init opts w = (s, w')"
    and post: "Span_check_self opts s = None"
    by (simp_all add: Span_Inr_iff)
  from pre show "check_object opts" and "check_object (get opts ''logger'')"
    and "check_string (get opts ''operation'')"
    by (simp_all add: Span_check_opts_None)
  from pre have oS: "optional check_uuid (get opts ''span_id'')"
    and oP: "get opts ''parent_span_id'' = JStr ''0'' \<or>
             optional check_uuid (get opts ''parent_span_id'')"
    by (simp_all add: Span_check_opts_None)
  have tS: "truthy (get opts ''span_id'') = check_uuid (get opts ''span_id'')"
    using oS by (rule optional_uuid_truthy)
  from ini have s_eq: "s = fst (Span_init opts w)" by simp
  show "creator s = (\<not> check_uuid (get opts ''span_id''))"
    unfolding s_eq by (simp add: Span_init_eq tS)
  show "finished s = False" and "tags s = []"
    and "logger s = get opts ''logger''" and "operation s = get opts ''operation''"
    unfolding s_eq by (simp_all add: Span_init_eq)
  show sid: "span_id s = (if check_uuid (get opts ''span_id'') then get opts ''span_id''
                      else fst (uuid_v4 w))"
    unfolding s_eq by (simp add: Span_init_eq tS)
  from post show cs: "check_uuid (span_id s)" and "check_uuid (trace_id s)"
    by (simp_all add: Span_check_self_None)
  have par: "parent_span_id s = (if truthy (get opts ''parent_span_id'')
                         then get opts ''parent_span_id'' else JStr ''0'')"
    unfolding s_eq by (simp add: Span_init_eq)
  from post have pp: "get opts ''parent_span_id'' = JStr ''0'' \<or> check_uuid (parent_span_id s)"
    by (simp add: Span_check_self_None)
  show P: "get opts ''parent_span_id'' = JStr ''0'' \<or> check_uuid (get opts ''parent_span_id'')"
  proof (cases "truthy (get opts ''parent_span_id'')")
    case True
    with par pp show ?thesis by simp
  next
    case False
    with par pp show ?thesis by (simp add: UUID_REGEXP_test_sentinel)
  qed
  from P show "parent_span_id s = get opts ''parent_span_id''"
    unfolding par by (auto simp: check_uuid_truthy)
  from oS cs sid show "check_uuid (get opts ''span_id'') \<or>
         (get opts ''span_id'' = JUndefined \<or> get opts ''span_id'' = JNull) \<and>
         check_uuid (fst (uuid_v4 w))"
    by (auto simp: optional_def)
qed

lemma Span_InrD_trace:
  assumes "Span opts w = (Inr s, w')" and "check_uuid (get opts ''trace_id'')"
  shows "trace_id s = get opts ''trace_id''"
    and "w' = (if check_uuid (get opts ''span_id'') then w else snd (uuid_v4 w))"
proof -
  from assms(1) have pre: "Span_check_opts opts = None"
    and ini: "Span_init opts w = (s, w')"
    by (simp_all add: Span_Inr_iff)
  from pre have "optional check_uuid (get opts ''span_id'')"
    by (simp add: Span_check_opts_None)
  then have tS: "truthy (get opts ''span_id'') = check_uuid (get opts ''span_id'')"
    by (rule optional_uuid_truthy)
  have tT: "truthy (get opts ''trace_id'')" using assms(2) by (rule check_uuid_truthy)
  from ini have s_eq: "s = fst (Span_init opts w)" and w_eq: "w' = snd (Span_init opts w)"
    by simp_all
  show "trace_id s = get opts ''trace_id''"
    unfolding s_eq by (simp add: Span_init_eq tT)
  show "w' = (if check_uuid (get opts ''span_id'') then w else snd (uuid_v4 w))"
    unfolding w_eq by (simp add: Span_init_eq tT tS)
qed

lemma Span_ok:
  assumes "check_object opts" and "check_object (get opts ''logger'')"
    and "check_string (get opts ''operation'')"
    and "get opts ''parent_span_id'' = JStr ''0'' \<or> check_uuid (get opts ''parent_span_id'')"
    and "check_uuid (get opts ''span_id'') \<or>
         (get opts ''span_id'' = JUndefined \<or> get opts ''span_id'' = JNull) \<and>
         check_uuid (fst (uuid_v4 w))"
    and "check_uuid (get opts ''trace_id'')"
  shows "Span opts w =
    (Inr \<lparr> creator = \<not> check_uuid (get opts ''span_id''),
           finished = False,
           logger = get opts ''logger'',
           operation = get opts ''operation'',
           parent_span_id = get opts ''parent_span_id'',
           span_id = (if check_uuid (get opts ''span_id'') then get opts ''span_id''
                      else fst (uuid_v4 w)),
           tags = [],
           trace_id = get opts ''trace_id'' \<rparr>,
     (if check_uuid (get opts ''span_id'') then w else snd (uuid_v4 w)))"
proof -
  have oS: "optional check_uuid (get opts ''span_id'')"
    using assms(5) by (auto simp: optional_def)
  have tS: "truthy (get opts ''span_id'') = check_uuid (get opts ''span_id'')"
    using oS by (rule optional_uuid_truthy)
  have tT: "truthy (get opts ''trace_id'')" using assms(6) by (rule check_uuid_truthy)
  have tP: "(if truthy (get opts ''parent_span_id'')
             then get opts ''parent_span_id'' else JStr ''0'') = get opts ''parent_span_id''"
    using assms(4) by (auto simp: check_uuid_truthy)
  have pre: "Span_check_opts opts = None"
    using assms oS by (auto simp: Span_check_opts_None optional_def)
  have ini: "Span_init opts w =
    (\<lparr> creator = \<not> check_uuid (get opts ''span_id''),
           finished = False,
           logger = get opts ''logger'',
           operation = get opts ''operation'',
           parent_span_id = get opts ''parent_span_id'',
           span_id = (if check_uuid (get opts ''span_id'') then get opts ''span_id''
                      else fst (uuid_v4 w)),
           tags = [],
           trace_id = get opts ''trace_id'' \<rparr>,
     (if check_uuid (get opts ''span_id'') then w else snd (uuid_v4 w)))"
    unfolding Span_init_eq tP by (simp add: tS tT)
  have post: "Span_check_self opts (fst (Span_init opts w)) = None"
    unfolding ini using assms by (auto simp: Span_check_self_None)
  show ?thesis
    using pre ini post by (simp add: Span_def)
qed

lemma Span_establishes_inv:
  assumes "Span opts w = (Inr s, w')"
  shows "span_inv s"
  using Span_InrD [OF assms] by (auto simp: span_inv_def)

lemma Span_absent_parent_fails:
  assumes "get opts ''parent_span_id'' \<noteq> JStr ''0''"
    and "\<not> truthy (get opts ''parent_span_id'')"
  shows "\<exists>e. fst (Span opts w) = Inl e"
proof -
  have "parent_span_id (fst (Span_init opts w)) = JStr ''0''"
    using assms(2) by (simp add: Span_init_eq)
  then have "Span_check_self opts (fst (Span_init opts w)) \<noteq> None"
    using assms(1) by (simp add: Span_check_self_None UUID_REGEXP_test_sentinel)
  then show ?thesis by (simp add: Span_Inl_iff)
qed

lemma newSpan_without_ids_fails:
  "\<exists>e. fst (newSpan (JObj [(''logger'', lg), (''operation'', op)]) w) = Inl e"
  unfolding newSpan_def by (rule Span_absent_parent_fails) simp_all

lemma newSpan_with_sentinel:
  assumes "check_object opts" and "check_object (get opts ''logger'')"
    and "check_string (get opts ''operation'')"
    and "get opts ''parent_span_id'' = JStr ''0''"
    and "get opts ''span_id'' = JUndefined" and "get opts ''trace_id'' = JUndefined"
    and "check_uuid (fst (uuid_v4 w))" and "check_uuid (fst (uuid_v4 (snd (uuid_v4 w))))"
  shows "\<exists>s w'. newSpan opts w = (Inr s, w') \<and> trace_id s \<noteq> JStr ''0'' \<and>
           span_id s \<noteq> JStr ''0'' \<and> parent_span_id s = JStr ''0'' \<and> creator s = True"
proof -
  have pre: "Span_check_opts opts = None"
    using assms by (simp add: Span_check_opts_None optional_def)
  have ini: "Span_init opts w =
    (\<lparr> creator = True, finished = False, logger = get opts ''logger'',
       operation = get opts ''operation'', parent_span_id = JStr ''0'',
       span_id = fst (uuid_v4 w), tags = [],
       trace_id = fst (uuid_v4 (snd (uuid_v4 w))) \<rparr>, snd (uuid_v4 (snd (uuid_v4 w))))"
    by (simp add: Span_init_eq assms(4,5,6))
  have post: "Span_check_self opts (fst (Span_init opts w)) = None"
    unfolding ini using assms by (simp add: Span_check_self_None)
  from pre ini post have "newSpan opts w = (Inr (fst (Span_init opts w)), snd (Span_init opts w))"
    by (simp add: newSpan_def Span_def)
  then show ?thesis
    using assms(7,8) unfolding ini
    by (auto dest: check_uuid_not_sentinel)
qed

lemma joinSpan_InrD:
  assumes "joinSpan opts w = (Inr s, w')"
  shows "Span opts w = (Inr s, w')" and "check_uuid (get opts ''trace_id'')"
  using assms by (auto simp: joinSpan_def split: if_splits)

lemma joinSpan_ok:
  assumes "check_object opts"
    and "get opts ''parent_span_id'' = JStr ''0'' \<or> check_uuid (get opts ''parent_span_id'')"
    and "check_uuid (get opts ''trace_id'')"
  shows "joinSpan opts w = Span opts w"
  using assms by (auto simp: joinSpan_def)

section \<open>The methods of a Span\<close>

lemma spanLog_ok:
  assumes "finished s = False" and "check_string name" and "optional check_bool end'"
  shows "spanLog s name end' w =
          (Inr (s\<lparr>finished := truthy end', tags := []\<rparr>),
           w\<lparr>logged := logged w @ [(logger s, JObj [(''evt'', log_event s name end')])]\<rparr>)"
  using assms by (simp add: spanLog_def Let_def logger_info_def log_event_def)

lemma spanLog_finished:
  "finished s \<Longrightarrow> spanLog s name end' w = (Inl (AssertionError ''self.finished''), w)"
  by (simp add: spanLog_def)

lemma spanLog_Inr_iff:
  "(\<exists>s' w'. spanLog s name end' w = (Inr s', w')) =
   (finished s = False \<and> check_string name \<and> optional check_bool end')"
  by (auto simp: spanLog_def Let_def)

lemma spanLog_InrD:
  assumes "spanLog s name end' w = (Inr s', w')"
  shows "finished s = False" and "check_string name" and "optional check_bool end'"
    and "s' = s\<lparr>finished := truthy end', tags := []\<rparr>"
    and "w' = w\<lparr>logged := logged w @ [(logger s, JObj [(''evt'', log_event s name end')])]\<rparr>"
proof -
  from assms have "\<exists>s' w'. spanLog s name end' w = (Inr s', w')" by blast
  then show c: "finished s = False" "check_string name" "optional check_bool end'"
    by (simp_all add: spanLog_Inr_iff)
  from assms spanLog_ok [OF c, of w]
  show "s' = s\<lparr>finished := truthy end', tags := []\<rparr>"
    and "w' = w\<lparr>logged := logged w @ [(logger s, JObj [(''evt'', log_event s name end')])]\<rparr>"
    by simp_all
qed

lemma log_event_end:
  "get (log_event s name end') ''end'' =
     (if truthy end' \<and> creator s then JBool True else JUndefined)"
  "(''end'' \<in> set (Object_keys (log_event s name end'))) = (truthy end' \<and> creator s)"
  "get (log_event s name end') ''tags'' = JObj (tags s)"
  "get (log_event s name end') ''kind'' = name"
  by (auto simp: log_event_def)

lemma addTags_loop_tags_only:
  "addTags_loop ks tags' s = s\<lparr>tags := tags (addTags_loop ks tags' s)\<rparr>"
proof (induction ks arbitrary: s)
  case Nil
  show ?case by simp
next
  case (Cons k ks)
  let ?s1 = "if k = ''__proto__'' then s
             else s\<lparr>tags := AList.update k (get tags' k) (tags s)\<rparr>"
  have "addTags_loop (k # ks) tags' s = addTags_loop ks tags' ?s1"
    by simp
  also have "\<dots> = ?s1\<lparr>tags := tags (addTags_loop ks tags' ?s1)\<rparr>"
    by (rule Cons.IH)
  finally show ?case by (cases "k = ''__proto__''") simp_all
qed

lemma addTags_loop_map_of:
  "map_of (tags (addTags_loop ks tags' s)) =
   (\<lambda>k. if k \<in> set ks \<and> k \<noteq> ''__proto__'' then Some (get tags' k)
        else map_of (tags s) k)"
proof (induction ks arbitrary: s)
  case Nil
  show ?case by simp
next
  case (Cons k ks)
  show ?case
  proof (cases "k = ''__proto__''")
    case True
    then show ?thesis by (auto simp: Cons.IH fun_eq_iff)
  next
    case False
    then show ?thesis by (auto simp: Cons.IH update_conv' fun_eq_iff)
  qed
qed

lemma addTags_finished: "finished s \<Longrightarrow> addTags s tags' = Inl (AssertionError ''self.finished'')"
  by (simp add: addTags_def)

lemma addTags_InrD:
  assumes "addTags s tags' = Inr s'"
  shows "finished s = False" and "check_object tags'"
    and "\<exists>tg. s' = s\<lparr>tags := tg\<rparr>"
    and "map_of (tags s') =
         (\<lambda>k. if k \<in> set (Object_keys tags') \<and> k \<noteq> ''__proto__'' then Some (get tags' k)
              else map_of (tags s) k)"
proof -
  from assms show f: "finished s = False" and o: "check_object tags'"
    by (auto simp: addTags_def split: if_splits)
  with assms have eq: "s' = addTags_loop (Object_keys tags') tags' s"
    by (simp add: addTags_def)
  show "\<exists>tg. s' = s\<lparr>tags := tg\<rparr>"
    unfolding eq using addTags_loop_tags_only by blast
  show "map_of (tags s') =
         (\<lambda>k. if k \<in> set (Object_keys tags') \<and> k \<noteq> ''__proto__'' then Some (get tags' k)
              else map_of (tags s) k)"
    unfolding eq by (rule addTags_loop_map_of)
qed

lemma addTags_ok:
  "finished s = False \<Longrightarrow> check_object tags' \<Longrightarrow>
   addTags s tags' = Inr (addTags_loop (Object_keys tags') tags' s)"
  by (simp add: addTags_def)

lemma startChild_InrD:
  assumes "startChild p opts w = (Inr (p', child), w')"
  shows "p' = p" and "check_object opts" and "check_string (get opts ''operation'')"
    and "Span (JObj [(''logger'', logger p), (''operation'', get opts ''operation''),
                    (''parent_span_id'', span_id p), (''trace_id'', trace_id p)]) w
         = (Inr child, w')"
  using assms
  by (auto simp: startChild_def split: if_splits prod.splits sum.splits)

lemma startChild_ok:
  assumes "span_inv p" and "check_object opts" and "check_string (get opts ''operation'')"
    and "check_uuid (fst (uuid_v4 w))"
  shows "startChild p opts w =
          (Inr (p, \<lparr> creator = True, finished = False, logger = logger p,
                     operation = get opts ''operation'', parent_span_id = span_id p,
                     span_id = fst (uuid_v4 w), tags = [], trace_id = trace_id p \<rparr>),
           snd (uuid_v4 w))"
proof -
  let ?o = "JObj [(''logger'', logger p), (''operation'', get opts ''operation''),
                  (''parent_span_id'', span_id p), (''trace_id'', trace_id p)]"
  have g: "get ?o ''logger'' = logger p" "get ?o ''operation'' = get opts ''operation''"
    "get ?o ''parent_span_id'' = span_id p" "get ?o ''span_id'' = JUndefined"
    "get ?o ''trace_id'' = trace_id p"
    by simp_all
  from assms(1) have inv: "check_object (logger p)" "check_uuid (span_id p)"
    "check_uuid (trace_id p)"
    by (simp_all add: span_inv_def)
  have "Span ?o w =
    (Inr \<lparr> creator = \<not> check_uuid (get ?o ''span_id''),
           finished = False,
           logger = get ?o ''logger'',
           operation = get ?o ''operation'',
           parent_span_id = get ?o ''parent_span_id'',
           span_id = (if check_uuid (get ?o ''span_id'') then get ?o ''span_id''
                      else fst (uuid_v4 w)),
           tags = [],
           trace_id = get ?o ''trace_id'' \<rparr>,
     (if check_uuid (get ?o ''span_id'') then w else snd (uuid_v4 w)))"
    by (rule Span_ok) (simp_all only: g inv assms check_object.simps simp_thms)
  then have "Span ?o w =
    (Inr \<lparr> creator = True, finished = False, logger = logger p,
           operation = get opts ''operation'', parent_span_id = span_id p,
           span_id = fst (uuid_v4 w), tags = [], trace_id = trace_id p \<rparr>,
     snd (uuid_v4 w))"
    by (simp only: g check_uuid.simps if_False not_False_eq_True)
  with assms(2,3) show ?thesis
    by (simp add: startChild_def)
qed

lemma injectHeaders_object:
  "injectHeaders s (JObj ps) =
     Inr (JObj (AList.update ''x-request-id'' (trace_id s)
                 (AList.update ''x-parent-span-id'' (parent_span_id s)
                   (AList.update ''x-span-id'' (span_id s) ps))))"
  by (simp add: injectHeaders_def)

lemma get_injected:
  "get (JObj (AList.update ''x-request-id'' t
                 (AList.update ''x-parent-span-id'' p
                   (AList.update ''x-span-id'' s ps)))) ''x-span-id'' = s"
  "get (JObj (AList.update ''x-request-id'' t
                 (AList.update ''x-parent-span-id'' p
                   (AList.update ''x-span-id'' s ps)))) ''x-parent-span-id'' = p"
  "get (JObj (AList.update ''x-request-id'' t
                 (AList.update ''x-parent-span-id'' p
                   (AList.update ''x-span-id'' s ps)))) ''x-request-id'' = t"
  by (simp_all add: update_conv')

section \<open>Evolution of a Span\<close>

lemma evolves_fields:
  assumes "evolves s s'"
  shows "creator s' = creator s \<and> logger s' = logger s \<and> operation s' = operation s \<and>
         parent_span_id s' = parent_span_id s \<and> span_id s' = span_id s \<and>
         trace_id s' = trace_id s"
  using assms
proof (induction rule: evolves.induct)
  case (evolves_refl s)
  show ?case by simp
next
  case (evolves_addTags s s1 tags' s2)
  from addTags_InrD(3) [OF evolves_addTags.hyps(2)]
  obtain tg where "s2 = s1\<lparr>tags := tg\<rparr>" by blast
  then have "creator s2 = creator s1 \<and> logger s2 = logger s1 \<and> operation s2 = operation s1 \<and>
         parent_span_id s2 = parent_span_id s1 \<and> span_id s2 = span_id s1 \<and>
         trace_id s2 = trace_id s1"
    by simp
  with evolves_addTags.IH show ?case by simp
next
  case (evolves_log s s1 name end' w s2 w')
  from spanLog_InrD(4) [OF evolves_log.hyps(2)]
  have "s2 = s1\<lparr>finished := truthy end', tags := []\<rparr>" .
  then have "creator s2 = creator s1 \<and> logger s2 = logger s1 \<and> operation s2 = operation s1 \<and>
         parent_span_id s2 = parent_span_id s1 \<and> span_id s2 = span_id s1 \<and>
         trace_id s2 = trace_id s1"
    by simp
  with evolves_log.IH show ?case by simp
next
  case (evolves_startChild s s1 opts w s2 child w')
  from startChild_InrD(1) [OF evolves_startChild.hyps(2)] evolves_startChild.IH
  show ?case by simp
qed

lemma evolves_closed:
  assumes "evolves s s'" and "finished s"
  shows "s' = s"
  using assms
proof (induction rule: evolves.induct)
  case (evolves_refl s)
  show ?case by simp
next
  case (evolves_addTags s s1 tags' s2)
  then have "finished s1" by simp
  with addTags_InrD(1) [OF evolves_addTags.hyps(2)] show ?case by simp
next
  case (evolves_log s s1 name end' w s2 w')
  then have "finished s1" by simp
  with spanLog_InrD(1) [OF evolves_log.hyps(2)] show ?case by simp
next
  case (evolves_startChild s s1 opts w s2 child w')
  with startChild_InrD(1) [OF evolves_startChild.hyps(2)] show ?case by simp
qed

lemma evolves_inv:
  assumes "evolves s s'" and "span_inv s"
  shows "span_inv s'"
  using evolves_fields [OF assms(1)] assms(2) by (simp add: span_inv_def)

lemma span_inv_parent_truthy: "span_inv s \<Longrightarrow> truthy (parent_span_id s)"
  by (auto simp: span_inv_def check_uuid_truthy)

section \<open>The call-site protocols\<close>

lemma serverRequest_resumes:
  assumes inv: "span_inv s" and lg: "check_object lg" and op: "check_string op"
    and tg: "check_object tags'"
    and hS: "get h' ''x-span-id'' = span_id s"
    and hP: "get h' ''x-parent-span-id'' = parent_span_id s"
  shows "serverRequest
           (JObj [(''logger'', lg), (''operation'', op),
                  (''req'', JObj [(''headers'', h'), (''id'', trace_id s)])]) tags' w =
         (Inr \<lparr> creator = False, finished = False, logger = lg, operation = op,
                parent_span_id = parent_span_id s, span_id = span_id s, tags = [],
                trace_id = trace_id s \<rparr>,
          w\<lparr>logged := logged w @
             [(lg, JObj [(''evt'', log_event
                  (addTags_loop (Object_keys tags') tags'
                     \<lparr> creator = False, finished = False, logger = lg, operation = op,
                       parent_span_id = parent_span_id s, span_id = span_id s, tags = [],
                       trace_id = trace_id s \<rparr>)
                  (JStr ''server.request'') JUndefined)])]\<rparr>)"
proof -
  let ?req = "JObj [(''headers'', h'), (''id'', trace_id s)]"
  let ?opts = "JObj [(''logger'', lg), (''operation'', op), (''req'', ?req)]"
  let ?jo = "JObj [(''logger'', lg), (''operation'', op),
                   (''parent_span_id'', parent_span_id s), (''span_id'', span_id s),
                   (''trace_id'', trace_id s)]"
  let ?s0 = "\<lparr> creator = False, finished = False, logger = lg, operation = op,
                parent_span_id = parent_span_id s, span_id = span_id s, tags = [],
                trace_id = trace_id s \<rparr>"
  from inv have ids: "check_uuid (span_id s)" "check_uuid (trace_id s)"
    "parent_span_id s = JStr ''0'' \<or> check_uuid (parent_span_id s)"
    by (simp_all add: span_inv_def)
  have tP: "truthy (parent_span_id s)" using inv by (rule span_inv_parent_truthy)
  have rh: "req_header ?req ''x-span-id'' = span_id s"
    "req_header ?req ''x-parent-span-id'' = parent_span_id s"
    "req_getId ?req = trace_id s"
    by (simp_all add: req_header_def req_getId_def hS hP)
  have go: "get ?opts ''logger'' = lg" "get ?opts ''operation'' = op" "get ?opts ''req'' = ?req"
    by simp_all
  have sr: "serverRequest ?opts tags' w =
     (case joinSpan ?jo w of
        (Inl e, w') \<Rightarrow> (Inl e, w')
      | (Inr span0, w') \<Rightarrow>
         (case addTags span0 tags' of
            Inl e \<Rightarrow> (Inl e, w')
          | Inr span1 \<Rightarrow> spanLog span1 (JStr ''server.request'') JUndefined w'))"
    unfolding serverRequest_def go rh using lg op tP by simp
  have gj: "get ?jo ''logger'' = lg" "get ?jo ''operation'' = op"
    "get ?jo ''parent_span_id'' = parent_span_id s" "get ?jo ''span_id'' = span_id s"
    "get ?jo ''trace_id'' = trace_id s" "check_object ?jo"
    by simp_all
  have "joinSpan ?jo w = Span ?jo w"
    by (rule joinSpan_ok) (simp_all only: gj ids)
  also have "\<dots> =
    (Inr \<lparr> creator = \<not> check_uuid (get ?jo ''span_id''),
           finished = False,
           logger = get ?jo ''logger'',
           operation = get ?jo ''operation'',
           parent_span_id = get ?jo ''parent_span_id'',
           span_id = (if check_uuid (get ?jo ''span_id'') then get ?jo ''span_id''
                      else fst (uuid_v4 w)),
           tags = [],
           trace_id = get ?jo ''trace_id'' \<rparr>,
     (if check_uuid (get ?jo ''span_id'') then w else snd (uuid_v4 w)))"
    by (rule Span_ok) (simp_all only: gj ids lg op simp_thms)
  also have "\<dots> = (Inr ?s0, w)"
    by (simp only: gj ids simp_thms if_True)
  finally have js: "joinSpan ?jo w = (Inr ?s0, w)" .
  let ?s1 = "addTags_loop (Object_keys tags') tags' ?s0"
  have at: "addTags ?s0 tags' = Inr ?s1"
    by (rule addTags_ok) (simp_all add: tg)
  obtain tgs where s1: "?s1 = ?s0\<lparr>tags := tgs\<rparr>"
    using addTags_loop_tags_only by blast
  have "spanLog ?s1 (JStr ''server.request'') JUndefined w =
          (Inr (?s1\<lparr>finished := truthy JUndefined, tags := []\<rparr>),
           w\<lparr>logged := logged w @
              [(logger ?s1, JObj [(''evt'', log_event ?s1 (JStr ''server.request'')
                                              JUndefined)])]\<rparr>)"
    by (rule spanLog_ok) (simp_all add: s1 optional_def)
  moreover have "?s1\<lparr>finished := truthy JUndefined, tags := []\<rparr> = ?s0"
    by (simp add: s1)
  moreover have "logger ?s1 = lg" by (simp add: s1)
  ultimately have sl: "spanLog ?s1 (JStr ''server.request'') JUndefined w =
          (Inr ?s0,
           w\<lparr>logged := logged w @
              [(lg, JObj [(''evt'', log_event ?s1 (JStr ''server.request'') JUndefined)])]\<rparr>)"
    by simp
  show ?thesis
    unfolding sr js by (simp only: prod.case sum.case at sl)
qed

lemma clientRequest_None_fails:
  "\<exists>e. fst (clientRequest None opts tags' w) = Inl e"
proof -
  obtain e w' where
    "newSpan (JObj [(''logger'', get opts ''logger''),
                    (''operation'', get opts ''operation'')]) w = (Inl e, w')"
    using newSpan_without_ids_fails
    by (metis prod.collapse)
  then show ?thesis by (simp add: clientRequest_def)
qed

lemma clientRequest_child:
  assumes inv: "span_inv p" and o: "check_object opts"
    and hd: "check_object (get opts ''headers'')"
    and op: "check_string (get opts ''operation'')" and tg: "check_object tags'"
    and fresh: "check_uuid (fst (uuid_v4 w))"
  shows "\<exists>c h' evt.
           clientRequest (Some p) opts tags' w =
             (Inr (c, h'),
              (snd (uuid_v4 w))\<lparr>logged := logged (snd (uuid_v4 w)) @
                                   [(logger p, JObj [(''evt'', evt)])]\<rparr>) \<and>
           finished c = False \<and> tags c = [] \<and> creator c = True \<and>
           trace_id c = trace_id p \<and> parent_span_id c = span_id p \<and>
           span_id c = fst (uuid_v4 w) \<and>
           get h' ''x-span-id'' = span_id c \<and> get h' ''x-parent-span-id'' = span_id p \<and>
           get h' ''x-request-id'' = trace_id p \<and>
           get evt ''kind'' = JStr ''client.request'' \<and>
           ''end'' \<notin> set (Object_keys evt) \<and>
           (\<exists>tgs. get evt ''tags'' = JObj tgs \<and>
                  map_of tgs = (\<lambda>k. if k \<in> set (Object_keys tags') \<and> k \<noteq> ''__proto__''
                                      then Some (get tags' k) else None))"
proof -
  let ?co = "JObj [(''operation'', get opts ''operation'')]"
  let ?w1 = "snd (uuid_v4 w)"
  define c0 where "c0 = \<lparr> creator = True, finished = False, logger = logger p,
                     operation = get ?co ''operation'', parent_span_id = span_id p,
                     span_id = fst (uuid_v4 w), tags = [], trace_id = trace_id p \<rparr>"
  have sc: "startChild p ?co w = (Inr (p, c0), ?w1)"
    unfolding c0_def by (rule startChild_ok [OF inv _ _ fresh]) (simp_all add: op)
  obtain ps where hps: "get opts ''headers'' = JObj ps" using hd
    by (cases "get opts ''headers''") auto
  define h' where "h' = JObj (AList.update ''x-request-id'' (trace_id c0)
                 (AList.update ''x-parent-span-id'' (parent_span_id c0)
                   (AList.update ''x-span-id'' (span_id c0) ps)))"
  have inj: "injectHeaders c0 (get opts ''headers'') = Inr h'"
    by (simp add: hps h'_def injectHeaders_object)
  have gh: "get h' ''x-span-id'' = span_id c0" "get h' ''x-parent-span-id'' = parent_span_id c0"
    "get h' ''x-request-id'' = trace_id c0"
    unfolding h'_def by (rule get_injected)+
  define c1 where "c1 = addTags_loop (Object_keys tags') tags' c0"
  have at: "addTags c0 tags' = Inr c1"
    unfolding c1_def by (rule addTags_ok) (simp_all add: c0_def tg)
  obtain tgs where c1: "c1 = c0\<lparr>tags := tgs\<rparr>"
    unfolding c1_def using addTags_loop_tags_only by blast
  have mt: "map_of (tags c1) = (\<lambda>k. if k \<in> set (Object_keys tags') \<and> k \<noteq> ''__proto__''
                                      then Some (get tags' k) else None)"
  proof -
    have "tags c0 = []" by (simp add: c0_def)
    then show ?thesis unfolding c1_def addTags_loop_map_of by (simp cong: if_cong)
  qed
  define evt where "evt = log_event c1 (JStr ''client.request'') JUndefined"
  have "spanLog c1 (JStr ''client.request'') JUndefined ?w1 =
          (Inr (c1\<lparr>finished := truthy JUndefined, tags := []\<rparr>),
           ?w1\<lparr>logged := logged ?w1 @ [(logger c1, JObj [(''evt'', evt)])]\<rparr>)"
    unfolding evt_def by (rule spanLog_ok) (simp_all add: c1 c0_def optional_def)
  moreover have "c1\<lparr>finished := truthy JUndefined, tags := []\<rparr> = c0"
    by (simp add: c1 c0_def)
  moreover have "logger c1 = logger p" by (simp add: c1 c0_def)
  ultimately have sl: "spanLog c1 (JStr ''client.request'') JUndefined ?w1 =
          (Inr c0, ?w1\<lparr>logged := logged ?w1 @ [(logger p, JObj [(''evt'', evt)])]\<rparr>)"
    by simp
  have cr: "clientRequest (Some p) opts tags' w =
             (Inr (c0, h'),
              ?w1\<lparr>logged := logged ?w1 @ [(logger p, JObj [(''evt'', evt)])]\<rparr>)"
    using o hd op tg by (simp add: clientRequest_def sc inj at sl)
  have ev: "get evt ''kind'' = JStr ''client.request''" "''end'' \<notin> set (Object_keys evt)"
    "get evt ''tags'' = JObj (tags c1)"
    unfolding evt_def by (simp_all add: log_event_end)
  have f: "finished c0 = False" "tags c0 = []" "creator c0 = True" "trace_id c0 = trace_id p"
    "parent_span_id c0 = span_id p" "span_id c0 = fst (uuid_v4 w)"
    by (simp_all add: c0_def)
  from cr f gh ev mt show ?thesis by (metis (no_types, lifting))
qed

section \<open>The example data is produced by the code\<close>

lemma ex_uuids:
  "check_uuid (JStr ex_trace)" "check_uuid (JStr ex_span)" "check_uuid (JStr ex_parent)"
  "check_uuid (JStr ex_fresh)" "check_uuid (JStr ''eeeeeeee-0000-4000-8000-000000000005'')"
  by (simp_all add: ex_trace_def ex_span_def ex_parent_def ex_fresh_def UUID_REGEXP_test_def
      is_hex_def eval_nat_numeral)

lemma ex_distinct:
  "ex_fresh \<noteq> ex_span" "ex_span \<noteq> ex_parent" "ex_span \<noteq> ''0''" "ex_parent \<noteq> ''0''"
  by (simp_all add: ex_span_def ex_parent_def ex_fresh_def)

lemma ex_v4: "uuid_v4 ex_world = (JStr ex_fresh, ex_world\<lparr>uuid_calls := 1\<rparr>)"
  by (simp add: uuid_v4_def ex_world_def ex_rng_def)

lemma ex_get_join:
  "get ex_join_opts ''logger'' = ex_logger"
  "get ex_join_opts ''operation'' = JStr ''svc.get''"
  "get ex_join_opts ''parent_span_id'' = JStr ex_parent"
  "get ex_join_opts ''span_id'' = JStr ex_span"
  "get ex_join_opts ''trace_id'' = JStr ex_trace"
  "check_object ex_join_opts" "check_object ex_logger"
  by (simp_all add: ex_join_opts_def ex_logger_def)

lemma ex_joined_built: "joinSpan ex_join_opts ex_world = (Inr ex_joined, ex_world)"
proof -
  have "joinSpan ex_join_opts ex_world = Span ex_join_opts ex_world"
    by (rule joinSpan_ok) (simp_all add: ex_get_join ex_uuids del: check_uuid.simps)
  also have "\<dots> = (Inr ex_joined, ex_world)"
    by (subst Span_ok) (simp_all add: ex_get_join ex_uuids ex_joined_def del: check_uuid.simps)
  finally show ?thesis .
qed

lemma ex_joined_inv: "span_inv ex_joined"
  using ex_joined_built by (auto dest: joinSpan_InrD Span_establishes_inv)

lemma ex_tagged_built:
  "addTags ex_joined (JObj [(''peer.addr'', JStr ''10.0.0.1'')]) = Inr ex_tagged"
  by (simp add: addTags_def ex_joined_def ex_tagged_def)

lemma ex_closed_built:
  "fst (spanLog ex_joined (JStr ''server.response'') (JBool True) ex_world) = Inr ex_closed"
  by (subst spanLog_ok) (simp_all add: ex_joined_def ex_closed_def optional_def)

lemma ex_closed_inv: "span_inv ex_closed"
  using ex_joined_inv by (simp add: span_inv_def ex_closed_def)

lemma ex_child_built:
  "startChild ex_joined (JObj [(''operation'', JStr ''db.query'')]) ex_world =
     (Inr (ex_joined, ex_child), ex_world\<lparr>uuid_calls := 1\<rparr>)"
proof -
  let ?o = "JObj [(''operation'', JStr ''db.query'')]"
  have "startChild ex_joined ?o ex_world =
          (Inr (ex_joined, \<lparr> creator = True, finished = False, logger = logger ex_joined,
                     operation = get ?o ''operation'', parent_span_id = span_id ex_joined,
                     span_id = fst (uuid_v4 ex_world), tags = [],
                     trace_id = trace_id ex_joined \<rparr>),
           snd (uuid_v4 ex_world))"
    by (rule startChild_ok [OF ex_joined_inv])
       (simp_all add: ex_v4 ex_uuids del: check_uuid.simps)
  then show ?thesis
    by (simp add: ex_v4 ex_child_def ex_joined_def)
qed

lemma ex_child_inv: "span_inv ex_child"
  using ex_child_built by (auto dest: startChild_InrD Span_establishes_inv)

lemma ex_newSpan_throws:
  "fst (newSpan ex_new_opts ex_world) = Inl (AssertionError ''self.parent_span_id'')"
proof -
  have pre: "Span_check_opts ex_new_opts = None"
    by (simp add: Span_check_opts_None ex_new_opts_def ex_logger_def optional_def)
  have ini: "Span_init ex_new_opts ex_world =
    (\<lparr> creator = True, finished = False, logger = ex_logger, operation = JStr ''svc.get'',
       parent_span_id = JStr ''0'', span_id = JStr ex_fresh, tags = [],
       trace_id = JStr ''eeeeeeee-0000-4000-8000-000000000005'' \<rparr>,
     ex_world\<lparr>uuid_calls := 2\<rparr>)"
    by (simp add: Span_init_eq ex_new_opts_def uuid_v4_def ex_world_def ex_rng_def)
  have post: "Span_check_self ex_new_opts (fst (Span_init ex_new_opts ex_world)) =
                Some (AssertionError ''self.parent_span_id'')"
    unfolding ini
    by (simp add: Span_check_self_def ex_logger_def UUID_REGEXP_test_sentinel
        ex_new_opts_def)
  show ?thesis
    using pre post by (auto simp: newSpan_def Span_def split: prod.splits)
qed

section \<open>The claims\<close>

text \<open>
  Claim C1. On a Span that is not finished, \<^verbatim>\<open>log(name, true)\<close> with a string name
  succeeds and leaves \<open>finished = true\<close> whatever \<open>creator\<close> is. The one record
  it hands to the logger has \<open>end = true\<close> exactly when \<open>creator\<close> is true; on a joined
  Span (\<open>creator = false\<close>) the record has no \<open>end\<close> property at all.
\<close>

theorem terminal_log_end_iff_creator:
  assumes "finished s = False" and "check_string name"
  shows "\<exists>s' evt.
           spanLog s name (JBool True) w =
             (Inr s', w\<lparr>logged := logged w @ [(logger s, JObj [(''evt'', evt)])]\<rparr>) \<and>
           finished s' = True \<and>
           (get evt ''end'' = JBool True) = creator s \<and>
           (''end'' \<in> set (Object_keys evt)) = creator s"
proof -
  have "optional check_bool (JBool True)" by (simp add: optional_def)
  from spanLog_ok [OF assms this, of w]
  have "spanLog s name (JBool True) w =
          (Inr (s\<lparr>finished := True, tags := []\<rparr>),
           w\<lparr>logged := logged w @
              [(logger s, JObj [(''evt'', log_event s name (JBool True))])]\<rparr>)"
    by simp
  moreover have "(get (log_event s name (JBool True)) ''end'' = JBool True) = creator s"
    by (simp add: log_event_end)
  moreover have "(''end'' \<in> set (Object_keys (log_event s name (JBool True)))) = creator s"
    by (simp add: log_event_end)
  moreover have "finished (s\<lparr>finished := True, tags := []\<rparr>) = True" by simp
  ultimately show ?thesis by blast
qed

theorem terminal_log_end_iff_creator_witness:
  "finished ex_joined = False \<and> check_string (JStr ''server.response'') \<and>
   creator ex_joined = False \<and>
   (\<exists>s' evt.
      spanLog ex_joined (JStr ''server.response'') (JBool True) ex_world =
        (Inr s', ex_world\<lparr>logged := logged ex_world @
                   [(logger ex_joined, JObj [(''evt'', evt)])]\<rparr>) \<and>
      finished s' = True \<and>
      (get evt ''end'' = JBool True) = creator ex_joined \<and>
      (''end'' \<in> set (Object_keys evt)) = creator ex_joined)"
proof -
  have h1: "finished ex_joined = False" by (simp add: ex_joined_def)
  have h2: "check_string (JStr ''server.response'')" by simp
  have h3: "creator ex_joined = False" by (simp add: ex_joined_def)
  from terminal_log_end_iff_creator [OF h1 h2, of ex_world] h1 h2 h3
  show ?thesis by blast
qed

text \<open>
  Claim C2. Let \<open>s\<close> be a Span as the constructor leaves it (\<open>span_inv\<close>), \<open>h\<close> a
  header object, and let \<^verbatim>\<open>s.injectHeaders(h)\<close> be followed by \<^verbatim>\<open>serverRequest\<close> on a
  request that carries these headers and whose id is \<open>s\<close>'s trace id. Both calls
  succeed, and the Span returned has the trace id of \<open>s\<close>, the span id found under
  \<^verbatim>\<open>x-span-id\<close>, the parent id found under \<^verbatim>\<open>x-parent-span-id\<close> (these are the ids
  of \<open>s\<close>) and \<open>creator = false\<close>. No record logged later by that Span, terminal or
  not, has an \<open>end\<close> property.
\<close>

theorem inject_then_serverRequest:
  assumes "span_inv s" and "check_object h" and "check_object lg" and "check_string op"
    and "check_object tags'"
  shows "\<exists>h' s' w'.
           injectHeaders s h = Inr h' \<and>
           serverRequest
             (JObj [(''logger'', lg), (''operation'', op),
                    (''req'', JObj [(''headers'', h'), (''id'', trace_id s)])]) tags' w
             = (Inr s', w') \<and>
           trace_id s' = trace_id s \<and>
           span_id s' = get h' ''x-span-id'' \<and>
           parent_span_id s' = get h' ''x-parent-span-id'' \<and>
           span_id s' = span_id s \<and> parent_span_id s' = parent_span_id s \<and>
           creator s' = False \<and> finished s' = False \<and>
           (\<forall>s'' name end' w2 s3 w3.
              evolves s' s'' \<longrightarrow> spanLog s'' name end' w2 = (Inr s3, w3) \<longrightarrow>
              (\<exists>evt. w3 = w2\<lparr>logged := logged w2 @ [(logger s'', JObj [(''evt'', evt)])]\<rparr> \<and>
                     ''end'' \<notin> set (Object_keys evt) \<and> get evt ''end'' \<noteq> JBool True))"
proof -
  obtain ps where hps: "h = JObj ps" using assms(2) by (cases h) auto
  define h' where "h' = JObj (AList.update ''x-request-id'' (trace_id s)
                 (AList.update ''x-parent-span-id'' (parent_span_id s)
                   (AList.update ''x-span-id'' (span_id s) ps)))"
  have inj: "injectHeaders s h = Inr h'"
    by (simp add: hps h'_def injectHeaders_object)
  have hS: "get h' ''x-span-id'' = span_id s"
    and hP: "get h' ''x-parent-span-id'' = parent_span_id s"
    unfolding h'_def by (rule get_injected)+
  define s' where "s' = \<lparr> creator = False, finished = False, logger = lg, operation = op,
                parent_span_id = parent_span_id s, span_id = span_id s, tags = [],
                trace_id = trace_id s \<rparr>"
  from serverRequest_resumes [OF assms(1,3,4,5) hS hP, of w]
  obtain w' where sr: "serverRequest
             (JObj [(''logger'', lg), (''operation'', op),
                    (''req'', JObj [(''headers'', h'), (''id'', trace_id s)])]) tags' w
             = (Inr s', w')"
    unfolding s'_def by blast
  have never: "\<exists>evt. w3 = w2\<lparr>logged := logged w2 @ [(logger s'', JObj [(''evt'', evt)])]\<rparr> \<and>
                     ''end'' \<notin> set (Object_keys evt) \<and> get evt ''end'' \<noteq> JBool True"
    if ev: "evolves s' s''" and lg: "spanLog s'' name end' w2 = (Inr s3, w3)"
    for s'' name end' w2 s3 w3
  proof -
    from evolves_fields [OF ev] have c: "creator s'' = False" by (simp add: s'_def)
    from spanLog_InrD(5) [OF lg]
    have "w3 = w2\<lparr>logged := logged w2 @
                 [(logger s'', JObj [(''evt'', log_event s'' name end')])]\<rparr>" .
    moreover have "''end'' \<notin> set (Object_keys (log_event s'' name end'))"
      by (simp add: log_event_end c)
    moreover have "get (log_event s'' name end') ''end'' \<noteq> JBool True"
      by (simp add: log_event_end c)
    ultimately show ?thesis by blast
  qed
  have fields: "trace_id s' = trace_id s" "span_id s' = get h' ''x-span-id''"
    "parent_span_id s' = get h' ''x-parent-span-id''" "span_id s' = span_id s"
    "parent_span_id s' = parent_span_id s" "creator s' = False" "finished s' = False"
    by (simp_all add: s'_def hS hP)
  from inj sr fields never show ?thesis by blast
qed

theorem inject_then_serverRequest_witness:
  "span_inv ex_child \<and> check_object (JObj []) \<and> check_object ex_logger \<and>
   check_string (JStr ''db.handle'') \<and>
   (\<exists>h' s' w'.
      injectHeaders ex_child (JObj []) = Inr h' \<and>
      serverRequest
        (JObj [(''logger'', ex_logger), (''operation'', JStr ''db.handle''),
               (''req'', JObj [(''headers'', h'), (''id'', trace_id ex_child)])]) (JObj [])
        ex_world = (Inr s', w') \<and>
      trace_id s' = JStr ex_trace \<and> span_id s' = JStr ex_fresh \<and>
      parent_span_id s' = JStr ex_span \<and> creator s' = False \<and>
      (\<exists>s3 evt. spanLog s' (JStr ''server.response'') (JBool True) w' =
                  (Inr s3, w'\<lparr>logged := logged w' @
                             [(logger s', JObj [(''evt'', evt)])]\<rparr>) \<and>
                ''end'' \<notin> set (Object_keys evt)))"
proof -
  have h2: "check_object (JObj [])" by simp
  have h3: "check_object ex_logger" by (simp add: ex_logger_def)
  have h4: "check_string (JStr ''db.handle'')" by simp
  from inject_then_serverRequest [OF ex_child_inv h2 h3 h4 h2, of ex_world]
  obtain h' s' w' where inj: "injectHeaders ex_child (JObj []) = Inr h'"
    and sr: "serverRequest
        (JObj [(''logger'', ex_logger), (''operation'', JStr ''db.handle''),
               (''req'', JObj [(''headers'', h'), (''id'', trace_id ex_child)])]) (JObj [])
        ex_world = (Inr s', w')"
    and f: "trace_id s' = trace_id ex_child" "span_id s' = span_id ex_child"
      "parent_span_id s' = parent_span_id ex_child" "creator s' = False"
      "finished s' = False"
    and never: "\<forall>s'' name end' w2 s3 w3.
              evolves s' s'' \<longrightarrow> spanLog s'' name end' w2 = (Inr s3, w3) \<longrightarrow>
              (\<exists>evt. w3 = w2\<lparr>logged := logged w2 @ [(logger s'', JObj [(''evt'', evt)])]\<rparr> \<and>
                     ''end'' \<notin> set (Object_keys evt) \<and> get evt ''end'' \<noteq> JBool True)"
    by blast
  have h5: "check_string (JStr ''server.response'')" by simp
  have "optional check_bool (JBool True)" by (simp add: optional_def)
  from spanLog_ok [OF f(5) h5 this, of w']
  obtain s3 w3 where lg: "spanLog s' (JStr ''server.response'') (JBool True) w' = (Inr s3, w3)"
    by simp
  from never evolves_refl [of s'] lg
  obtain evt where "w3 = w'\<lparr>logged := logged w' @ [(logger s', JObj [(''evt'', evt)])]\<rparr>"
    and "''end'' \<notin> set (Object_keys evt)"
    by blast
  with lg have "\<exists>s3 evt. spanLog s' (JStr ''server.response'') (JBool True) w' =
                  (Inr s3, w'\<lparr>logged := logged w' @
                             [(logger s', JObj [(''evt'', evt)])]\<rparr>) \<and>
                ''end'' \<notin> set (Object_keys evt)"
    by blast
  moreover have "trace_id s' = JStr ex_trace" "span_id s' = JStr ex_fresh"
    "parent_span_id s' = JStr ex_span"
    using f by (simp_all add: ex_child_def)
  ultimately show ?thesis
    using ex_child_inv h2 h3 h4 inj sr f(4) by blast
qed

text \<open>
  Claim C3. A call of \<^verbatim>\<open>log(name, end)\<close> succeeds exactly on a Span that is not
  finished, with a string name and an \<open>end\<close> that is a boolean, \<^verbatim>\<open>undefined\<close> or
  \<^verbatim>\<open>null\<close> (lemma \<open>spanLog_Inr_iff\<close>). After such a call the tag set of the Span is
  empty, and the record handed to the logger carries, under \<open>tags\<close>, exactly the tag
  set the Span held before the call.
\<close>

theorem log_drains_tags:
  assumes "finished s = False" and "check_string name" and "optional check_bool end'"
  shows "\<exists>s' evt.
           spanLog s name end' w =
             (Inr s', w\<lparr>logged := logged w @ [(logger s, JObj [(''evt'', evt)])]\<rparr>) \<and>
           tags s' = [] \<and> get evt ''tags'' = JObj (tags s)"
proof -
  from spanLog_ok [OF assms, of w]
  have "spanLog s name end' w =
          (Inr (s\<lparr>finished := truthy end', tags := []\<rparr>),
           w\<lparr>logged := logged w @ [(logger s, JObj [(''evt'', log_event s name end')])]\<rparr>)" .
  moreover have "get (log_event s name end') ''tags'' = JObj (tags s)"
    by (simp add: log_event_end)
  moreover have "tags (s\<lparr>finished := truthy end', tags := []\<rparr>) = []" by simp
  ultimately show ?thesis by blast
qed

theorem log_drains_tags_witness:
  "finished ex_tagged = False \<and> check_string (JStr ''server.request'') \<and>
   optional check_bool JUndefined \<and>
   (\<exists>s' evt.
      spanLog ex_tagged (JStr ''server.request'') JUndefined ex_world =
        (Inr s', ex_world\<lparr>logged := logged ex_world @
                   [(logger ex_tagged, JObj [(''evt'', evt)])]\<rparr>) \<and>
      tags s' = [] \<and> get evt ''tags'' = JObj [(''peer.addr'', JStr ''10.0.0.1'')])"
proof -
  have h1: "finished ex_tagged = False" by (simp add: ex_tagged_def ex_joined_def)
  have h2: "check_string (JStr ''server.request'')" by simp
  have h3: "optional check_bool JUndefined" by (simp add: optional_def)
  have t: "tags ex_tagged = [(''peer.addr'', JStr ''10.0.0.1'')]"
    by (simp add: ex_tagged_def)
  from log_drains_tags [OF h1 h2 h3, of ex_world] h1 h2 h3
  show ?thesis unfolding t by blast
qed

text \<open>
  Claim C4. Once \<open>finished\<close> is true, as it is after a terminal log (claim C1), both
  \<^verbatim>\<open>addTags\<close> and \<^verbatim>\<open>log\<close> fail on the assertion on \<^verbatim>\<open>self.finished\<close>, with any
  arguments. Whatever sequence of calls follows (\<open>evolves\<close>), the Span stays as it
  is: \<open>finished\<close> is never reset, so it changes at most once, from false to true.
\<close>

theorem finished_forbids_writes:
  assumes "finished s" and "evolves s s'"
  shows "s' = s \<and> finished s' \<and>
         addTags s' tags' = Inl (AssertionError ''self.finished'') \<and>
         spanLog s' name end' w = (Inl (AssertionError ''self.finished''), w)"
proof -
  have "s' = s" using assms(2,1) by (rule evolves_closed)
  with assms(1) show ?thesis
    by (simp add: addTags_finished spanLog_finished)
qed

theorem finished_forbids_writes_witness:
  "fst (spanLog ex_joined (JStr ''server.response'') (JBool True) ex_world) = Inr ex_closed \<and>
   finished ex_closed \<and> evolves ex_closed ex_closed \<and>
   addTags ex_closed (JObj [(''k'', JNum 1)]) = Inl (AssertionError ''self.finished'') \<and>
   spanLog ex_closed (JStr ''again'') JUndefined ex_world =
     (Inl (AssertionError ''self.finished''), ex_world)"
proof -
  have h1: "finished ex_closed" by (simp add: ex_closed_def)
  have h2: "evolves ex_closed ex_closed" by (rule evolves_refl)
  from finished_forbids_writes [OF h1 h2, of "JObj [(''k'', JNum 1)]" "JStr ''again''"
      JUndefined ex_world] h1 h2 ex_closed_built
  show ?thesis by blast
qed

text \<open>
  Claim C5 says that on a finished Span every operation fails, \<^verbatim>\<open>injectHeaders\<close> and
  \<^verbatim>\<open>startChild\<close> included. Neither of the two reads \<^verbatim>\<open>self.finished\<close>: on the Span
  closed by a terminal log, \<^verbatim>\<open>injectHeaders\<close> writes the three headers and
  \<^verbatim>\<open>startChild\<close> returns an open child.
\<close>

theorem closed_not_absorbing_counterexample:
  "fst (spanLog ex_joined (JStr ''server.response'') (JBool True) ex_world) = Inr ex_closed \<and>
   finished ex_closed \<and>
   injectHeaders ex_closed (JObj []) =
     Inr (JObj [(''x-span-id'', JStr ex_span), (''x-parent-span-id'', JStr ex_parent),
                (''x-request-id'', JStr ex_trace)]) \<and>
   startChild ex_closed (JObj [(''operation'', JStr ''db.query'')]) ex_world =
     (Inr (ex_closed, ex_child), ex_world\<lparr>uuid_calls := 1\<rparr>)"
proof -
  let ?o = "JObj [(''operation'', JStr ''db.query'')]"
  have "startChild ex_closed ?o ex_world =
          (Inr (ex_closed, \<lparr> creator = True, finished = False, logger = logger ex_closed,
                     operation = get ?o ''operation'', parent_span_id = span_id ex_closed,
                     span_id = fst (uuid_v4 ex_world), tags = [],
                     trace_id = trace_id ex_closed \<rparr>),
           snd (uuid_v4 ex_world))"
    by (rule startChild_ok [OF ex_closed_inv])
       (simp_all add: ex_v4 ex_uuids del: check_uuid.simps)
  then have "startChild ex_closed ?o ex_world =
     (Inr (ex_closed, ex_child), ex_world\<lparr>uuid_calls := 1\<rparr>)"
    by (simp add: ex_v4 ex_child_def ex_joined_def ex_closed_def)
  moreover have "injectHeaders ex_closed (JObj []) =
     Inr (JObj [(''x-span-id'', JStr ex_span), (''x-parent-span-id'', JStr ex_parent),
                (''x-request-id'', JStr ex_trace)])"
    by (simp add: injectHeaders_object ex_closed_def ex_joined_def)
  moreover have "finished ex_closed" by (simp add: ex_closed_def)
  ultimately show ?thesis using ex_closed_built by simp
qed

text \<open>
  Claim C5, amended. On a finished Span the two writing operations, \<^verbatim>\<open>addTags\<close> and
  \<^verbatim>\<open>log\<close>, fail. \<^verbatim>\<open>injectHeaders\<close> and \<^verbatim>\<open>startChild\<close> do not test \<open>finished\<close> and
  succeed as on an open Span: the three headers are written, and an open child of the
  same trace is returned while the Span itself is left as it was.
\<close>

theorem closed_blocks_writes_only:
  assumes "finished s" and "span_inv s" and "check_object h" and "check_object opts"
    and "check_string (get opts ''operation'')" and "check_uuid (fst (uuid_v4 w))"
  shows "addTags s tags' = Inl (AssertionError ''self.finished'') \<and>
         spanLog s name end' w0 = (Inl (AssertionError ''self.finished''), w0) \<and>
         (\<exists>h'. injectHeaders s h = Inr h' \<and> get h' ''x-span-id'' = span_id s \<and>
               get h' ''x-parent-span-id'' = parent_span_id s \<and>
               get h' ''x-request-id'' = trace_id s) \<and>
         (\<exists>c. startChild s opts w = (Inr (s, c), snd (uuid_v4 w)) \<and>
              trace_id c = trace_id s \<and> parent_span_id c = span_id s \<and>
              finished c = False)"
proof -
  obtain ps where "h = JObj ps" using assms(3) by (cases h) auto
  then have "\<exists>h'. injectHeaders s h = Inr h' \<and> get h' ''x-span-id'' = span_id s \<and>
               get h' ''x-parent-span-id'' = parent_span_id s \<and>
               get h' ''x-request-id'' = trace_id s"
    by (simp add: injectHeaders_object get_injected del: get.simps)
  moreover from startChild_ok [OF assms(2,4,5,6)]
  have "\<exists>c. startChild s opts w = (Inr (s, c), snd (uuid_v4 w)) \<and>
              trace_id c = trace_id s \<and> parent_span_id c = span_id s \<and>
              finished c = False"
    by simp
  ultimately show ?thesis
    using assms(1) by (simp add: addTags_finished spanLog_finished)
qed

theorem closed_blocks_writes_only_witness:
  "finished ex_closed \<and> span_inv ex_closed \<and> check_object (JObj []) \<and>
   check_object (JObj [(''operation'', JStr ''db.query'')]) \<and>
   check_string (get (JObj [(''operation'', JStr ''db.query'')]) ''operation'') \<and>
   check_uuid (fst (uuid_v4 ex_world)) \<and>
   addTags ex_closed (JObj []) = Inl (AssertionError ''self.finished'') \<and>
   spanLog ex_closed (JStr ''again'') JUndefined ex_world =
     (Inl (AssertionError ''self.finished''), ex_world) \<and>
   (\<exists>h'. injectHeaders ex_closed (JObj []) = Inr h' \<and>
         get h' ''x-span-id'' = span_id ex_closed \<and>
         get h' ''x-parent-span-id'' = parent_span_id ex_closed \<and>
         get h' ''x-request-id'' = trace_id ex_closed) \<and>
   (\<exists>c. startChild ex_closed (JObj [(''operation'', JStr ''db.query'')]) ex_world =
          (Inr (ex_closed, c), snd (uuid_v4 ex_world)) \<and>
        trace_id c = trace_id ex_closed \<and> parent_span_id c = span_id ex_closed \<and>
        finished c = False)"
proof -
  have h1: "finished ex_closed" by (simp add: ex_closed_def)
  have h3: "check_object (JObj [])" by simp
  have h4: "check_object (JObj [(''operation'', JStr ''db.query'')])" by simp
  have h5: "check_string (get (JObj [(''operation'', JStr ''db.query'')]) ''operation'')"
    by simp
  have h6: "check_uuid (fst (uuid_v4 ex_world))"
    by (simp add: ex_v4 ex_uuids del: check_uuid.simps)
  from closed_blocks_writes_only [OF h1 ex_closed_inv h3 h4 h5 h6, of "JObj []"
      "JStr ''again''" JUndefined ex_world] h1 ex_closed_inv h3 h4 h5 h6
  show ?thesis by blast
qed

text \<open>
  Claim C6 says that no Span has a span id equal to its parent id. \<^verbatim>\<open>joinSpan\<close> takes
  both ids from its caller and never compares them: given the same well-formed id twice
  it returns a Span whose span id is its own parent id.
\<close>

theorem selfparent_counterexample:
  "joinSpan ex_selfparent_opts ex_world = (Inr ex_selfparent, ex_world) \<and>
   span_id ex_selfparent = parent_span_id ex_selfparent"
proof -
  have g: "get ex_selfparent_opts ''logger'' = ex_logger"
    "get ex_selfparent_opts ''operation'' = JStr ''svc.get''"
    "get ex_selfparent_opts ''parent_span_id'' = JStr ex_span"
    "get ex_selfparent_opts ''span_id'' = JStr ex_span"
    "get ex_selfparent_opts ''trace_id'' = JStr ex_trace"
    "check_object ex_selfparent_opts"
    by (simp_all add: ex_selfparent_opts_def)
  have "joinSpan ex_selfparent_opts ex_world = Span ex_selfparent_opts ex_world"
    by (rule joinSpan_ok) (simp_all add: g ex_uuids del: check_uuid.simps)
  also have "\<dots> = (Inr ex_selfparent, ex_world)"
    by (subst Span_ok)
       (simp_all add: g ex_get_join ex_uuids ex_selfparent_def del: check_uuid.simps)
  finally show ?thesis by (simp add: ex_selfparent_def)
qed

text \<open>
  Claim C6, amended. The span id of a Span is a well-formed id, so it is never the
  sentinel \<^verbatim>\<open>"0"\<close> and differs from the parent id of every root. Otherwise a Span built
  by \<^verbatim>\<open>newSpan\<close> or \<^verbatim>\<open>joinSpan\<close> has a span id equal to its parent id exactly when the
  span id supplied (or, when none is supplied, the id minted) equals the parent id
  supplied; a child built by \<^verbatim>\<open>startChild\<close> has the parent's span id as parent id and
  the minted id as span id, so the two are equal exactly when the generator returns the
  parent's span id again.
\<close>

theorem span_id_differs_from_parent:
  "((newSpan opts w = (Inr s, w') \<or> joinSpan opts w = (Inr s, w')) \<longrightarrow>
      span_id s \<noteq> JStr ''0'' \<and>
      (span_id s = parent_span_id s) =
        ((if check_uuid (get opts ''span_id'') then get opts ''span_id''
          else fst (uuid_v4 w)) = get opts ''parent_span_id'')) \<and>
   (startChild p copts cw = (Inr (p', c), cw') \<longrightarrow>
      span_id c \<noteq> JStr ''0'' \<and> parent_span_id c = span_id p \<and>
      (span_id c = parent_span_id c) = (fst (uuid_v4 cw) = span_id p))"
proof (intro conjI impI)
  assume "newSpan opts w = (Inr s, w') \<or> joinSpan opts w = (Inr s, w')"
  then have sp: "Span opts w = (Inr s, w')"
    by (auto simp: newSpan_def dest: joinSpan_InrD)
  from Span_InrD(13) [OF sp] show "span_id s \<noteq> JStr ''0''"
    by (auto dest: check_uuid_not_sentinel)
  from Span_InrD(11,12) [OF sp]
  show "(span_id s = parent_span_id s) =
        ((if check_uuid (get opts ''span_id'') then get opts ''span_id''
          else fst (uuid_v4 w)) = get opts ''parent_span_id'')"
    by simp
next
  let ?o = "JObj [(''logger'', logger p), (''operation'', get copts ''operation''),
                  (''parent_span_id'', span_id p), (''trace_id'', trace_id p)]"
  assume "startChild p copts cw = (Inr (p', c), cw')"
  then have sp: "Span ?o cw = (Inr c, cw')" by (rule startChild_InrD)
  have g: "get ?o ''parent_span_id'' = span_id p" "get ?o ''span_id'' = JUndefined"
    by simp_all
  from Span_InrD(13) [OF sp] show "span_id c \<noteq> JStr ''0''"
    by (auto dest: check_uuid_not_sentinel)
  from Span_InrD(11) [OF sp] show par: "parent_span_id c = span_id p"
    by (simp only: g)
  from Span_InrD(12) [OF sp] have "span_id c = fst (uuid_v4 cw)"
    by (simp only: g check_uuid.simps if_False)
  with par show "(span_id c = parent_span_id c) = (fst (uuid_v4 cw) = span_id p)"
    by simp
qed

theorem span_id_differs_from_parent_witness:
  "joinSpan ex_join_opts ex_world = (Inr ex_joined, ex_world) \<and>
   span_id ex_joined \<noteq> JStr ''0'' \<and> span_id ex_joined \<noteq> parent_span_id ex_joined \<and>
   startChild ex_joined (JObj [(''operation'', JStr ''db.query'')]) ex_world =
     (Inr (ex_joined, ex_child), ex_world\<lparr>uuid_calls := 1\<rparr>) \<and>
   span_id ex_child \<noteq> JStr ''0'' \<and> parent_span_id ex_child = span_id ex_joined \<and>
   span_id ex_child \<noteq> parent_span_id ex_child"
proof -
  have ne1: "(if check_uuid (get ex_join_opts ''span_id'') then get ex_join_opts ''span_id''
          else fst (uuid_v4 ex_world)) \<noteq> get ex_join_opts ''parent_span_id''"
    by (simp add: ex_get_join ex_uuids ex_distinct del: check_uuid.simps)
  have ne2: "fst (uuid_v4 ex_world) \<noteq> span_id ex_joined"
    by (simp add: ex_v4 ex_joined_def ex_distinct)
  from span_id_differs_from_parent [of ex_join_opts ex_world ex_joined ex_world ex_joined
      "JObj [(''operation'', JStr ''db.query'')]" ex_world ex_joined ex_child
      "ex_world\<lparr>uuid_calls := 1\<rparr>"]
    ex_joined_built ex_child_built ne1 ne2
  show ?thesis by auto
qed

text \<open>
  Claim C7 says that \<^verbatim>\<open>joinSpan\<close> succeeds whenever the trace id is well formed, the
  operation and the logger are valid and the span id is absent or well formed.
  \<^verbatim>\<open>joinSpan\<close> also asserts that \<^verbatim>\<open>opts.parent_span_id\<close> is \<^verbatim>\<open>"0"\<close> or a well-formed
  id (its comment: "parent_span_id and trace_id are not optional"): with no parent id
  the call fails.
\<close>

theorem joinSpan_needs_parent_counterexample:
  "check_object ex_noparent_opts \<and> check_object (get ex_noparent_opts ''logger'') \<and>
   check_string (get ex_noparent_opts ''operation'') \<and>
   check_uuid (get ex_noparent_opts ''trace_id'') \<and>
   get ex_noparent_opts ''span_id'' = JUndefined \<and>
   check_uuid (fst (uuid_v4 ex_world)) \<and>
   joinSpan ex_noparent_opts ex_world = (Inl (AssertionError ''opts.parent_span_id''), ex_world)"
proof -
  have g: "get ex_noparent_opts ''logger'' = ex_logger"
    "get ex_noparent_opts ''operation'' = JStr ''svc.get''"
    "get ex_noparent_opts ''parent_span_id'' = JUndefined"
    "get ex_noparent_opts ''span_id'' = JUndefined"
    "get ex_noparent_opts ''trace_id'' = JStr ex_trace"
    "check_object ex_noparent_opts"
    by (simp_all add: ex_noparent_opts_def)
  have "joinSpan ex_noparent_opts ex_world =
          (Inl (AssertionError ''opts.parent_span_id''), ex_world)"
    by (simp add: joinSpan_def g)
  then show ?thesis
    by (simp add: g ex_v4 ex_uuids ex_get_join del: check_uuid.simps)
qed

text \<open>
  Claim C7, amended. \<^verbatim>\<open>joinSpan\<close> succeeds exactly when \<open>opts\<close> is an object with a
  logger object and an operation string, the parent id is \<^verbatim>\<open>"0"\<close> or well formed, the
  trace id is well formed, and the span id is well formed or absent (\<^verbatim>\<open>undefined\<close> or
  \<^verbatim>\<open>null\<close>, the generator then returning a well-formed id); in every other case it
  fails. On success the Span resumes the trace: it has the trace id and the parent id
  supplied, the span id supplied or else the minted one, \<open>creator\<close> true exactly when
  no span id was supplied, and it is open with no tags.
\<close>

theorem joinSpan_succeeds_iff:
  "(\<exists>s w'. joinSpan opts w = (Inr s, w')) =
     (check_object opts \<and> check_object (get opts ''logger'') \<and>
      check_string (get opts ''operation'') \<and>
      (get opts ''parent_span_id'' = JStr ''0'' \<or> check_uuid (get opts ''parent_span_id'')) \<and>
      check_uuid (get opts ''trace_id'') \<and>
      (check_uuid (get opts ''span_id'') \<or>
       (get opts ''span_id'' = JUndefined \<or> get opts ''span_id'' = JNull) \<and>
       check_uuid (fst (uuid_v4 w)))) \<and>
   (joinSpan opts w = (Inr s, w') \<longrightarrow>
      trace_id s = get opts ''trace_id'' \<and>
      parent_span_id s = get opts ''parent_span_id'' \<and>
      span_id s = (if check_uuid (get opts ''span_id'') then get opts ''span_id''
                   else fst (uuid_v4 w)) \<and>
      creator s = (\<not> check_uuid (get opts ''span_id'')) \<and>
      finished s = False \<and> tags s = [] \<and>
      operation s = get opts ''operation'' \<and> logger s = get opts ''logger'')"
proof -
  let ?ok = "check_object opts \<and> check_object (get opts ''logger'') \<and>
      check_string (get opts ''operation'') \<and>
      (get opts ''parent_span_id'' = JStr ''0'' \<or> check_uuid (get opts ''parent_span_id'')) \<and>
      check_uuid (get opts ''trace_id'') \<and>
      (check_uuid (get opts ''span_id'') \<or>
       (get opts ''span_id'' = JUndefined \<or> get opts ''span_id'' = JNull) \<and>
       check_uuid (fst (uuid_v4 w)))"
  have A: "(\<exists>s w'. joinSpan opts w = (Inr s, w')) = ?ok"
  proof (rule iffI)
    assume "\<exists>s w'. joinSpan opts w = (Inr s, w')"
    then obtain s w' where j: "joinSpan opts w = (Inr s, w')" by blast
    from joinSpan_InrD [OF j] have sp: "Span opts w = (Inr s, w')"
      and t: "check_uuid (get opts ''trace_id'')" by simp_all
    from Span_InrD(1-5) [OF sp] t show ?ok by blast
  next
    assume ok: ?ok
    then have "joinSpan opts w = Span opts w" by (intro joinSpan_ok) blast+
    moreover have "\<exists>s w'. Span opts w = (Inr s, w')"
      using Span_ok [of opts w] ok by blast
    ultimately show "\<exists>s w'. joinSpan opts w = (Inr s, w')" by simp
  qed
  have B: "joinSpan opts w = (Inr s, w') \<longrightarrow>
      trace_id s = get opts ''trace_id'' \<and>
      parent_span_id s = get opts ''parent_span_id'' \<and>
      span_id s = (if check_uuid (get opts ''span_id'') then get opts ''span_id''
                   else fst (uuid_v4 w)) \<and>
      creator s = (\<not> check_uuid (get opts ''span_id'')) \<and>
      finished s = False \<and> tags s = [] \<and>
      operation s = get opts ''operation'' \<and> logger s = get opts ''logger''"
  proof (rule impI)
    assume j: "joinSpan opts w = (Inr s, w')"
    from joinSpan_InrD [OF j] have sp: "Span opts w = (Inr s, w')"
      and t: "check_uuid (get opts ''trace_id'')" by simp_all
    from Span_InrD(6-12) [OF sp] Span_InrD_trace(1) [OF sp t]
    show "trace_id s = get opts ''trace_id'' \<and>
      parent_span_id s = get opts ''parent_span_id'' \<and>
      span_id s = (if check_uuid (get opts ''span_id'') then get opts ''span_id''
                   else fst (uuid_v4 w)) \<and>
      creator s = (\<not> check_uuid (get opts ''span_id'')) \<and>
      finished s = False \<and> tags s = [] \<and>
      operation s = get opts ''operation'' \<and> logger s = get opts ''logger''"
      by blast
  qed
  from A B show ?thesis by (rule conjI)
qed

theorem joinSpan_succeeds_iff_witness:
  "check_object ex_join_opts \<and> check_object (get ex_join_opts ''logger'') \<and>
   check_string (get ex_join_opts ''operation'') \<and>
   check_uuid (get ex_join_opts ''parent_span_id'') \<and>
   check_uuid (get ex_join_opts ''trace_id'') \<and> check_uuid (get ex_join_opts ''span_id'') \<and>
   joinSpan ex_join_opts ex_world = (Inr ex_joined, ex_world) \<and>
   trace_id ex_joined = JStr ex_trace \<and> parent_span_id ex_joined = JStr ex_parent \<and>
   span_id ex_joined = JStr ex_span \<and> creator ex_joined = False \<and>
   finished ex_joined = False \<and> tags ex_joined = []"
proof -
  from joinSpan_succeeds_iff [of ex_join_opts ex_world ex_joined ex_world] ex_joined_built
  show ?thesis
    by (simp add: ex_get_join ex_uuids del: check_uuid.simps)
qed

text \<open>
  Claim C8 says that the child's span id is distinct from the parent's. \<^verbatim>\<open>startChild\<close>
  takes the child's span id from \<^verbatim>\<open>uuid.v4()\<close> and compares it with nothing: where the
  generator returns the parent's span id, the child has the span id of its parent.
\<close>

theorem startChild_same_id_counterexample:
  "span_inv ex_joined \<and> check_object (JObj [(''operation'', JStr ''db.query'')]) \<and>
   check_string (get (JObj [(''operation'', JStr ''db.query'')]) ''operation'') \<and>
   uuid_v4 ex_echo_world = (JStr ex_span, ex_echo_world\<lparr>uuid_calls := 1\<rparr>) \<and>
   startChild ex_joined (JObj [(''operation'', JStr ''db.query'')]) ex_echo_world =
     (Inr (ex_joined, ex_twin), ex_echo_world\<lparr>uuid_calls := 1\<rparr>) \<and>
   span_id ex_twin = span_id ex_joined"
proof -
  let ?o = "JObj [(''operation'', JStr ''db.query'')]"
  have v4: "uuid_v4 ex_echo_world = (JStr ex_span, ex_echo_world\<lparr>uuid_calls := 1\<rparr>)"
    by (simp add: uuid_v4_def ex_echo_world_def)
  have "startChild ex_joined ?o ex_echo_world =
          (Inr (ex_joined, \<lparr> creator = True, finished = False, logger = logger ex_joined,
                     operation = get ?o ''operation'', parent_span_id = span_id ex_joined,
                     span_id = fst (uuid_v4 ex_echo_world), tags = [],
                     trace_id = trace_id ex_joined \<rparr>),
           snd (uuid_v4 ex_echo_world))"
    by (rule startChild_ok [OF ex_joined_inv])
       (simp_all add: v4 ex_uuids del: check_uuid.simps)
  then have "startChild ex_joined ?o ex_echo_world =
     (Inr (ex_joined, ex_twin), ex_echo_world\<lparr>uuid_calls := 1\<rparr>)"
    by (simp add: v4 ex_twin_def ex_joined_def)
  moreover have "span_id ex_twin = span_id ex_joined"
    by (simp add: ex_twin_def ex_joined_def)
  ultimately show ?thesis using ex_joined_inv v4 by simp
qed

text \<open>
  Claim C8, amended. Let \<open>p\<close> be a Span as the constructor leaves it (finished or
  not) and \<open>opts.operation\<close> a string, and let \<^verbatim>\<open>uuid.v4()\<close> return a well-formed id.
  Then \<^verbatim>\<open>startChild\<close> returns a Span with \<open>p\<close>'s trace id, \<open>p\<close>'s span id as parent
  id, the id just returned by the generator as span id, and \<open>creator = true\<close>; \<open>p\<close>
  is returned unchanged. The child's span id is not compared with \<open>p\<close>'s: the two are
  equal exactly when the generator returns \<open>p\<close>'s span id.
\<close>

theorem startChild_links_child:
  assumes "span_inv p" and "check_object opts" and "check_string (get opts ''operation'')"
    and "check_uuid (fst (uuid_v4 w))"
  shows "\<exists>c. startChild p opts w = (Inr (p, c), snd (uuid_v4 w)) \<and>
             trace_id c = trace_id p \<and> parent_span_id c = span_id p \<and>
             span_id c = fst (uuid_v4 w) \<and>
             (span_id c = span_id p) = (fst (uuid_v4 w) = span_id p) \<and>
             creator c = True \<and> finished c = False \<and> tags c = [] \<and>
             operation c = get opts ''operation'' \<and> logger c = logger p"
  using startChild_ok [OF assms] by simp

theorem startChild_links_child_witness:
  "span_inv ex_joined \<and> check_object (JObj [(''operation'', JStr ''db.query'')]) \<and>
   check_string (get (JObj [(''operation'', JStr ''db.query'')]) ''operation'') \<and>
   check_uuid (fst (uuid_v4 ex_world)) \<and>
   (\<exists>c. startChild ex_joined (JObj [(''operation'', JStr ''db.query'')]) ex_world =
          (Inr (ex_joined, c), snd (uuid_v4 ex_world)) \<and>
        trace_id c = JStr ex_trace \<and> parent_span_id c = JStr ex_span \<and>
        span_id c = JStr ex_fresh \<and> span_id c \<noteq> span_id ex_joined \<and>
        creator c = True \<and> finished c = False)"
proof -
  have h2: "check_object (JObj [(''operation'', JStr ''db.query'')])" by simp
  have h3: "check_string (get (JObj [(''operation'', JStr ''db.query'')]) ''operation'')"
    by simp
  have h4: "check_uuid (fst (uuid_v4 ex_world))"
    by (simp add: ex_v4 ex_uuids del: check_uuid.simps)
  have ne: "fst (uuid_v4 ex_world) \<noteq> span_id ex_joined"
    by (simp add: ex_v4 ex_joined_def ex_distinct)
  from startChild_links_child [OF ex_joined_inv h2 h3 h4]
  obtain c where c: "startChild ex_joined (JObj [(''operation'', JStr ''db.query'')]) ex_world =
          (Inr (ex_joined, c), snd (uuid_v4 ex_world))"
    and f: "trace_id c = trace_id ex_joined" "parent_span_id c = span_id ex_joined"
      "span_id c = fst (uuid_v4 ex_world)"
      "(span_id c = span_id ex_joined) = (fst (uuid_v4 ex_world) = span_id ex_joined)"
      "creator c = True" "finished c = False"
    by blast
  from f ne have "trace_id c = JStr ex_trace" "parent_span_id c = JStr ex_span"
    "span_id c = JStr ex_fresh" "span_id c \<noteq> span_id ex_joined"
    by (simp_all add: ex_joined_def ex_v4)
  with c f(5,6) ex_joined_inv h2 h3 h4 show ?thesis by blast
qed

text \<open>
  Claim C9 says that \<^verbatim>\<open>newSpan\<close>, given an operation and a logger and no ids, returns
  a root Span with parent id \<^verbatim>\<open>"0"\<close>. The constructor does default the parent id to
  \<^verbatim>\<open>"0"\<close>, but its closing guard tests \<^verbatim>\<open>opts.parent_span_id !== '0'\<close> where
  \<^verbatim>\<open>opts.parent_span_id\<close> is \<^verbatim>\<open>undefined\<close>, and then asserts that
  \<^verbatim>\<open>self.parent_span_id\<close>, which is \<^verbatim>\<open>"0"\<close>, is a well-formed id. The call throws, on
  the example input and on every input made of a logger and an operation only.
\<close>

theorem newSpan_without_parent_throws:
  "fst (newSpan ex_new_opts ex_world) = Inl (AssertionError ''self.parent_span_id'') \<and>
   (\<forall>lg op w. \<exists>e. fst (newSpan (JObj [(''logger'', lg), (''operation'', op)]) w) = Inl e)"
  using ex_newSpan_throws newSpan_without_ids_fails by blast

text \<open>
  Claim C10 says that \<^verbatim>\<open>clientRequest\<close> with no current span returns a root Span.
  It calls \<^verbatim>\<open>newSpan\<close> with a logger and an operation only, which throws (claim C9);
  so \<^verbatim>\<open>clientRequest(null, ...)\<close> throws on the example input, and on every input.
  With a current span the claim holds: lemma \<open>clientRequest_child\<close>.
\<close>

theorem clientRequest_null_span_throws:
  "fst (clientRequest None ex_client_opts (JObj []) ex_world) =
     Inl (AssertionError ''self.parent_span_id'') \<and>
   (\<forall>opts tags' w. \<exists>e. fst (clientRequest None opts tags' w) = Inl e)"
proof -
  have g: "get ex_client_opts ''logger'' = ex_logger"
    "get ex_client_opts ''operation'' = JStr ''svc.get''"
    "get ex_client_opts ''headers'' = JObj []" "check_object ex_client_opts"
    by (simp_all add: ex_client_opts_def)
  have "fst (newSpan ex_new_opts ex_world) = Inl (AssertionError ''self.parent_span_id'')"
    by (rule ex_newSpan_throws)
  then obtain w' where
    "newSpan ex_new_opts ex_world = (Inl (AssertionError ''self.parent_span_id''), w')"
    by (cases "newSpan ex_new_opts ex_world") simp
  then have "fst (clientRequest None ex_client_opts (JObj []) ex_world) =
     Inl (AssertionError ''self.parent_span_id'')"
    by (simp add: clientRequest_def g ex_new_opts_def [symmetric])
  then show ?thesis using clientRequest_None_fails by blast
qed

end
